theory Spec2Isabelle
  imports Complex_Main "HOL-Library.Word"
begin

unbundle bit_operations_syntax

section \<open>Vector3DTileContent: the "vctr" tile decoder\<close>

text \<open>
  A shallow embedding of \<^verbatim>\<open>Source/Scene/Vector3DTileContent.js\<close>. JavaScript
  exceptions are values of type \<open>error\<close>; a typed-array view is the list of the elements
  it shows; JavaScript numbers that hold counts and byte offsets are \<open>nat\<close>, the running
  batch-id counter is \<open>int\<close> (it starts at -1), and the elements of a \<^verbatim>\<open>Uint16Array\<close>
  are \<open>16 word\<close>, so that a store wraps modulo 65536 as it does in the source.
\<close>

subsection \<open>Errors\<close>

datatype developerError =
    InvalidMagic string
  | UnsupportedVersion nat
  | EmptyFeatureTable
  | BatchIdOutOfRange

datatype error =
    DeveloperError developerError
  | RangeError
  | TypeError
  | SyntaxError

datatype outcome = Returned | Threw error

subsection \<open>The array buffer and its views\<close>

type_synonym arrayBuffer = "8 word list"

definition defaultValue :: "'a option \<Rightarrow> 'a \<Rightarrow> 'a" where
  "defaultValue a b = (case a of None \<Rightarrow> b | Some v \<Rightarrow> v)"

definition defined :: "'a option \<Rightarrow> bool" where
  "defined a = (a \<noteq> None)"

definition sizeOfUint16 :: nat where
  "sizeOfUint16 = 2"

definition sizeOfUint32 :: nat where
  "sizeOfUint32 = 4"

text \<open>The little-endian value of a run of bytes, as a number.\<close>

fun littleEndian :: "8 word list \<Rightarrow> nat" where
  "littleEndian [] = 0"
| "littleEndian (b # bs) = unat b + 256 * littleEndian bs"

text \<open>
  \<^verbatim>\<open>view.getUint32(byteOffset, true)\<close> on a \<^verbatim>\<open>DataView\<close> of the whole buffer:
  a RangeError when the four bytes are not all inside the buffer.
\<close>

definition getUint32 :: "arrayBuffer \<Rightarrow> nat \<Rightarrow> error + nat" where
  "getUint32 view byteOffset =
     (if byteOffset + 4 \<le> length view
      then Inr (littleEndian (take 4 (drop byteOffset view)))
      else Inl RangeError)"

text \<open>
  \<^verbatim>\<open>new Uint8Array(buffer, byteOffset, length)\<close>, \<^verbatim>\<open>new Uint16Array(...)\<close> and
  \<^verbatim>\<open>new Uint32Array(...)\<close> (also used for \<^verbatim>\<open>Float32Array\<close>, whose elements are kept
  as their 32 bits): a RangeError when the offset is not a multiple of the element size
  or the view does not fit into the buffer. The view is modelled by the elements it shows.
\<close>

definition typedArray :: "nat \<Rightarrow> arrayBuffer \<Rightarrow> nat \<Rightarrow> nat \<Rightarrow> error + nat list" where
  "typedArray bytesPerElement buffer byteOffset len =
     (if byteOffset mod bytesPerElement \<noteq> 0 \<or> length buffer < byteOffset + bytesPerElement * len
      then Inl RangeError
      else Inr (map (\<lambda>i. littleEndian (take bytesPerElement (drop (byteOffset + bytesPerElement * i) buffer)))
                  [0..<len]))"

definition newUint8Array :: "arrayBuffer \<Rightarrow> nat \<Rightarrow> nat \<Rightarrow> error + 8 word list" where
  "newUint8Array buffer byteOffset len = map_sum id (map of_nat) (typedArray 1 buffer byteOffset len)"

definition newUint16Array :: "arrayBuffer \<Rightarrow> nat \<Rightarrow> nat \<Rightarrow> error + 16 word list" where
  "newUint16Array buffer byteOffset len = map_sum id (map of_nat) (typedArray 2 buffer byteOffset len)"

definition newUint32Array :: "arrayBuffer \<Rightarrow> nat \<Rightarrow> nat \<Rightarrow> error + 32 word list" where
  "newUint32Array buffer byteOffset len = map_sum id (map of_nat) (typedArray 4 buffer byteOffset len)"

text \<open>
  Modelled from the spec: \<^verbatim>\<open>Core/getMagic\<close> is not among the sources. The spec's header
  has a magic of 4 bytes at the start of the tile; the model reads the (at most four)
  bytes at \<open>byteOffset\<close> as characters.
\<close>

definition getMagic :: "8 word list \<Rightarrow> nat \<Rightarrow> string" where
  "getMagic uint8Array byteOffset = map (\<lambda>b. char_of (unat b)) (take 4 (drop byteOffset uint8Array))"

subsection \<open>The feature table\<close>

type_synonym cartesian3 = "real \<times> real \<times> real"
type_synonym rectangle = "real \<times> real \<times> real \<times> real"

text \<open>
  The parsed feature-table JSON. A key that is absent is \<open>None\<close>; the keys that name an
  array hold its \<^verbatim>\<open>byteOffset\<close> into the feature-table binary.
\<close>

record featureTableJson =
  POLYGONS_LENGTH :: "nat option"
  POLYLINES_LENGTH :: "nat option"
  POINTS_LENGTH :: "nat option"
  RTC_CENTER :: "cartesian3 option"
  RECTANGLE :: "rectangle option"
  MINIMUM_HEIGHT :: "real option"
  MAXIMUM_HEIGHT :: "real option"
  FORMAT :: "nat option"
  POLYGON_BATCH_IDS :: "nat option"
  POLYLINE_BATCH_IDS :: "nat option"
  POINT_BATCH_IDS :: "nat option"
  POLYGON_COUNT :: "nat option"
  POLYGON_INDEX_COUNT :: "nat option"
  POLYGON_MINIMUM_HEIGHTS :: "nat option"
  POLYGON_MAXIMUM_HEIGHTS :: "nat option"
  POLYLINE_COUNT :: "nat option"
  POLYLINE_WIDTHS :: "nat option"

subsection \<open>Batch ids (lines 326 to 389 of initialize)\<close>

text \<open>
  Lines 331 to 344, once per primitive type: the explicit id array is taken only when the
  type has primitives and its key is defined.
\<close>

definition explicitBatchIds :: "arrayBuffer \<Rightarrow> nat \<Rightarrow> nat \<Rightarrow> nat option \<Rightarrow> error + 16 word list option" where
  "explicitBatchIds buffer featureTableBinaryByteOffset numberOf key =
     (if numberOf > 0 \<and> defined key
      then map_sum id Some (newUint16Array buffer (featureTableBinaryByteOffset + the key) numberOf)
      else Inr None)"

text \<open>
  \<^verbatim>\<open>for (i = 0; i < n; ++i) { maxId = Math.max(maxId, ids[i]); }\<close>. An id array
  has as many elements as its type has primitives, so the loop stays inside the array.
\<close>

function maxIdLoop :: "nat \<Rightarrow> nat \<Rightarrow> 16 word list \<Rightarrow> int \<Rightarrow> int" where
  "maxIdLoop i n ids maxId =
     (if i < n \<and> i < length ids then maxIdLoop (i + 1) n ids (max maxId (uint (ids ! i))) else maxId)"
  by pat_completeness auto
termination
  by (relation "measure (\<lambda>(i, n, ids, maxId). n - i)") auto

declare maxIdLoop.simps [simp del]

text \<open>\<^verbatim>\<open>for (i = 0; i < n; ++i) { ids[i] = maxId++; }\<close> on a \<^verbatim>\<open>Uint16Array\<close>.\<close>

function assignIds :: "nat \<Rightarrow> nat \<Rightarrow> 16 word list \<Rightarrow> int \<Rightarrow> 16 word list \<times> int" where
  "assignIds i n ids maxId =
     (if i < n then assignIds (i + 1) n (ids[i := word_of_int maxId]) (maxId + 1) else (ids, maxId))"
  by pat_completeness auto
termination
  by (relation "measure (\<lambda>(i, n, ids, maxId). n - i)") auto

declare assignIds.simps [simp del]

text \<open>Lines 346 to 389.\<close>

definition synthesizeBatchIds ::
  "nat \<Rightarrow> nat \<Rightarrow> nat \<Rightarrow> 16 word list option \<Rightarrow> 16 word list option \<Rightarrow> 16 word list option
   \<Rightarrow> 16 word list option \<times> 16 word list option \<times> 16 word list option" where
  "synthesizeBatchIds numberOfPolygons numberOfPolylines numberOfPoints
       polygonBatchIds polylineBatchIds pointBatchIds =
     (if \<not> defined polygonBatchIds \<and> \<not> defined polylineBatchIds \<and> \<not> defined pointBatchIds then
        let maxId = - 1;
            maxId = (case polygonBatchIds of Some ids \<Rightarrow> maxIdLoop 0 numberOfPolygons ids maxId | None \<Rightarrow> maxId);
            maxId = (case polylineBatchIds of Some ids \<Rightarrow> maxIdLoop 0 numberOfPolylines ids maxId | None \<Rightarrow> maxId);
            maxId = (case pointBatchIds of Some ids \<Rightarrow> maxIdLoop 0 numberOfPoints ids maxId | None \<Rightarrow> maxId);
            maxId = maxId + 1;
            (polygonBatchIds, maxId) =
              (if \<not> defined polygonBatchIds \<and> numberOfPolygons > 0
               then apfst Some (assignIds 0 numberOfPolygons (replicate numberOfPolygons 0) maxId)
               else (polygonBatchIds, maxId));
            (polylineBatchIds, maxId) =
              (if \<not> defined polylineBatchIds \<and> numberOfPolylines > 0
               then apfst Some (assignIds 0 numberOfPolylines (replicate numberOfPolylines 0) maxId)
               else (polylineBatchIds, maxId));
            (pointBatchIds, maxId) =
              (if \<not> defined pointBatchIds \<and> numberOfPoints > 0
               then apfst Some (assignIds 0 numberOfPoints (replicate numberOfPoints 0) maxId)
               else (pointBatchIds, maxId))
        in (polygonBatchIds, polylineBatchIds, pointBatchIds)
      else (polygonBatchIds, polylineBatchIds, pointBatchIds))"

text \<open>Lines 326 to 389 together: the three arrays the builders are given.\<close>

definition resolveBatchIds ::
  "arrayBuffer \<Rightarrow> nat \<Rightarrow> featureTableJson \<Rightarrow> nat \<Rightarrow> nat \<Rightarrow> nat
   \<Rightarrow> error + (16 word list option \<times> 16 word list option \<times> 16 word list option)" where
  "resolveBatchIds buffer featureTableBinaryByteOffset featureTableJson
       numberOfPolygons numberOfPolylines numberOfPoints =
     (case explicitBatchIds buffer featureTableBinaryByteOffset numberOfPolygons (POLYGON_BATCH_IDS featureTableJson) of
        Inl e \<Rightarrow> Inl e
      | Inr polygonBatchIds \<Rightarrow>
     (case explicitBatchIds buffer featureTableBinaryByteOffset numberOfPolylines (POLYLINE_BATCH_IDS featureTableJson) of
        Inl e \<Rightarrow> Inl e
      | Inr polylineBatchIds \<Rightarrow>
     (case explicitBatchIds buffer featureTableBinaryByteOffset numberOfPoints (POINT_BATCH_IDS featureTableJson) of
        Inl e \<Rightarrow> Inl e
      | Inr pointBatchIds \<Rightarrow>
          Inr (synthesizeBatchIds numberOfPolygons numberOfPolylines numberOfPoints
                 polygonBatchIds polylineBatchIds pointBatchIds))))"

subsection \<open>Sections of the tile (lines 242 to 292 of initialize)\<close>

text \<open>
  \<^verbatim>\<open>featureTableJson.KEY.byteOffset\<close> is a TypeError when the key is absent.
\<close>

definition byteOffsetOf :: "nat option \<Rightarrow> error + nat" where
  "byteOffsetOf key = (case key of None \<Rightarrow> Inl TypeError | Some byteOffset \<Rightarrow> Inr byteOffset)"

definition bindE :: "error + 'a \<Rightarrow> ('a \<Rightarrow> error + 'b) \<Rightarrow> error + 'b" where
  "bindE r k = (case r of Inl e \<Rightarrow> Inl e | Inr v \<Rightarrow> k v)"

record 'j sections =
  s_indicesByteLength :: nat
  s_positionByteLength :: nat
  s_polylinePositionByteLength :: nat
  s_pointsPositionByteLength :: nat
  s_featureTableJson :: featureTableJson
  s_featureTableBinaryByteOffset :: nat
  s_batchTableJson :: "'j option"
  s_batchTableBinary :: "8 word list option"
  s_sectionsEnd :: nat

text \<open>
  The two parameters stand for \<^verbatim>\<open>JSON.parse(getStringFromTypedArray(uint8Array, byteOffset,
  byteLength))\<close> on the feature table and on the batch table; neither function is among
  the sources. \<open>s_sectionsEnd\<close> is \<open>byteOffset\<close> as it stands after line 292.
\<close>

definition readSections ::
  "(8 word list \<Rightarrow> nat \<Rightarrow> nat \<Rightarrow> error + featureTableJson) \<Rightarrow> (8 word list \<Rightarrow> nat \<Rightarrow> nat \<Rightarrow> error + 'j)
   \<Rightarrow> arrayBuffer \<Rightarrow> nat \<Rightarrow> error + 'j sections" where
  "readSections parseFeatureTable parseBatchTable arrayBuffer byteOffset =
     bindE (getUint32 arrayBuffer byteOffset) (\<lambda>featureTableJSONByteLength.
     let byteOffset = byteOffset + sizeOfUint32 in
     if featureTableJSONByteLength = 0 then Inl (DeveloperError EmptyFeatureTable) else
     bindE (getUint32 arrayBuffer byteOffset) (\<lambda>featureTableBinaryByteLength.
     let byteOffset = byteOffset + sizeOfUint32 in
     bindE (getUint32 arrayBuffer byteOffset) (\<lambda>batchTableJSONByteLength.
     let byteOffset = byteOffset + sizeOfUint32 in
     bindE (getUint32 arrayBuffer byteOffset) (\<lambda>batchTableBinaryByteLength.
     let byteOffset = byteOffset + sizeOfUint32 in
     bindE (getUint32 arrayBuffer byteOffset) (\<lambda>indicesByteLength.
     let byteOffset = byteOffset + sizeOfUint32 in
     bindE (getUint32 arrayBuffer byteOffset) (\<lambda>positionByteLength.
     let byteOffset = byteOffset + sizeOfUint32 in
     bindE (getUint32 arrayBuffer byteOffset) (\<lambda>polylinePositionByteLength.
     let byteOffset = byteOffset + sizeOfUint32 in
     bindE (getUint32 arrayBuffer byteOffset) (\<lambda>pointsPositionByteLength.
     let byteOffset = byteOffset + sizeOfUint32 in
     bindE (parseFeatureTable arrayBuffer byteOffset featureTableJSONByteLength) (\<lambda>featureTableJson.
     let byteOffset = byteOffset + featureTableJSONByteLength in
     bindE (newUint8Array arrayBuffer byteOffset featureTableBinaryByteLength) (\<lambda>featureTableBinary.
     let featureTableBinaryByteOffset = byteOffset;
         byteOffset = byteOffset + featureTableBinaryByteLength in
     if batchTableJSONByteLength > 0 then
       bindE (parseBatchTable arrayBuffer byteOffset batchTableJSONByteLength) (\<lambda>batchTableJson.
       let byteOffset = byteOffset + batchTableJSONByteLength in
       if batchTableBinaryByteLength > 0 then
         bindE (newUint8Array arrayBuffer byteOffset batchTableBinaryByteLength) (\<lambda>batchTableBinary.
         let byteOffset = byteOffset + batchTableBinaryByteLength in
         Inr \<lparr>s_indicesByteLength = indicesByteLength, s_positionByteLength = positionByteLength,
              s_polylinePositionByteLength = polylinePositionByteLength,
              s_pointsPositionByteLength = pointsPositionByteLength,
              s_featureTableJson = featureTableJson,
              s_featureTableBinaryByteOffset = featureTableBinaryByteOffset,
              s_batchTableJson = Some batchTableJson, s_batchTableBinary = Some batchTableBinary,
              s_sectionsEnd = byteOffset\<rparr>)
       else
         Inr \<lparr>s_indicesByteLength = indicesByteLength, s_positionByteLength = positionByteLength,
              s_polylinePositionByteLength = polylinePositionByteLength,
              s_pointsPositionByteLength = pointsPositionByteLength,
              s_featureTableJson = featureTableJson,
              s_featureTableBinaryByteOffset = featureTableBinaryByteOffset,
              s_batchTableJson = Some batchTableJson, s_batchTableBinary = None,
              s_sectionsEnd = byteOffset\<rparr>)
     else
       Inr \<lparr>s_indicesByteLength = indicesByteLength, s_positionByteLength = positionByteLength,
            s_polylinePositionByteLength = polylinePositionByteLength,
            s_pointsPositionByteLength = pointsPositionByteLength,
            s_featureTableJson = featureTableJson,
            s_featureTableBinaryByteOffset = featureTableBinaryByteOffset,
            s_batchTableJson = None, s_batchTableBinary = None,
            s_sectionsEnd = byteOffset\<rparr>))))))))))"

subsection \<open>Zig-zag delta decoding\<close>

text \<open>
  Modelled from the spec: \<^verbatim>\<open>AttributeCompression.zigZagDeltaDecode\<close> is not among the
  sources. The spec gives \<^verbatim>\<open>delta = (x>>1) XOR -(x&1)\<close>, accumulated as a running sum
  per array, independently, in index order; the arrays are \<^verbatim>\<open>Uint16Array\<close>s decoded in
  place, so each running sum is stored modulo 65536.
\<close>

definition zigZagDecode :: "16 word \<Rightarrow> int" where
  "zigZagDecode x = drop_bit 1 (uint x) XOR - (uint x AND 1)"

fun runningSum :: "int \<Rightarrow> 16 word list \<Rightarrow> 16 word list" where
  "runningSum acc [] = []"
| "runningSum acc (x # xs) =
     (let acc = acc + zigZagDecode x in word_of_int acc # runningSum acc xs)"

definition zigZagDeltaDecode ::
  "16 word list \<Rightarrow> 16 word list \<Rightarrow> 16 word list \<Rightarrow> 16 word list \<times> 16 word list \<times> 16 word list" where
  "zigZagDeltaDecode uBuffer vBuffer heightBuffer =
     (runningSum 0 uBuffer, runningSum 0 vBuffer, runningSum 0 heightBuffer)"

text \<open>
  Modelled from the spec: the encoder is not part of the repository. Following the spec's
  words, each array holds the zig-zag encoding \<^verbatim>\<open>(d << 1) XOR (d >> 15)\<close> of the
  successive differences \<open>d\<close> of the absolute values (the first difference is taken
  from 0), stored in 16 bits.
\<close>

definition zigZagEncode :: "int \<Rightarrow> 16 word" where
  "zigZagEncode d = word_of_int (push_bit 1 d XOR drop_bit 15 d)"

fun differences :: "int \<Rightarrow> 16 word list \<Rightarrow> 16 word list" where
  "differences previous [] = []"
| "differences previous (x # xs) = zigZagEncode (uint x - previous) # differences (uint x) xs"

definition zigZagDeltaEncode ::
  "16 word list \<Rightarrow> 16 word list \<Rightarrow> 16 word list \<Rightarrow> 16 word list \<times> 16 word list \<times> 16 word list" where
  "zigZagDeltaEncode us vs heights = (differences 0 us, differences 0 vs, differences 0 heights)"

definition maxShort :: nat where
  "maxShort = 32767"

subsection \<open>What the builders are given\<close>

text \<open>
  The options objects handed to \<^verbatim>\<open>Vector3DTilePolygons\<close> and \<^verbatim>\<open>Vector3DTilePolylines\<close>
  (neither is among the sources). The batch table, the tile's bounding volume, the pick
  object and the model matrix are passed on by reference and are left out of the records.
  The fields carry the option keys of the source, with \<open>pg_\<close> and \<open>pl_\<close> telling the
  two objects apart.
  The elements of the \<^verbatim>\<open>Float32Array\<close>s are kept as their 32 bits.
\<close>

record commonOptions =
  minimumHeight :: "real option"
  maximumHeight :: "real option"
  center :: cartesian3
  rectangle :: rectangle

record polygonsOptions = commonOptions +
  pg_positions :: "16 word list"
  pg_counts :: "32 word list"
  pg_indexCounts :: "32 word list"
  pg_indices :: "32 word list"
  pg_polygonMinimumHeights :: "32 word list option"
  pg_polygonMaximumHeights :: "32 word list option"
  pg_batchIds :: "16 word list option"
  pg_isCartographic :: bool

text \<open>
  \<open>widths\<close> is either a plain JavaScript array, whose holes are \<open>None\<close>, or a
  \<^verbatim>\<open>Uint16Array\<close> view.
\<close>

datatype widths = Array "real option list" | Uint16Array "16 word list"

record polylinesOptions = commonOptions +
  pl_positions :: "16 word list"
  pl_widths :: widths
  pl_counts :: "32 word list"
  pl_batchIds :: "16 word list option"

text \<open>Lines 396 to 437; the second component is \<open>byteOffset\<close> after line 401.\<close>

definition createPolygons ::
  "arrayBuffer \<Rightarrow> nat \<Rightarrow> 'j sections \<Rightarrow> nat \<Rightarrow> real option \<Rightarrow> real option \<Rightarrow> cartesian3 \<Rightarrow> rectangle
   \<Rightarrow> bool \<Rightarrow> 16 word list option \<Rightarrow> error + polygonsOptions \<times> nat" where
  "createPolygons arrayBuffer byteOffset s numberOfPolygons minHeight maxHeight center' rectangle'
       isCartographic' polygonBatchIds =
     bindE (newUint32Array arrayBuffer byteOffset (s_indicesByteLength s div sizeOfUint32)) (\<lambda>indices.
     let byteOffset = byteOffset + s_indicesByteLength s in
     bindE (newUint16Array arrayBuffer byteOffset (s_positionByteLength s div sizeOfUint16)) (\<lambda>polygonPositions.
     let byteOffset = byteOffset + s_positionByteLength s in
     bindE (byteOffsetOf (POLYGON_COUNT (s_featureTableJson s))) (\<lambda>polygonCount.
     let polygonCountByteOffset = s_featureTableBinaryByteOffset s + polygonCount in
     bindE (newUint32Array arrayBuffer polygonCountByteOffset numberOfPolygons) (\<lambda>counts.
     bindE (byteOffsetOf (POLYGON_INDEX_COUNT (s_featureTableJson s))) (\<lambda>polygonIndexCount.
     let polygonIndexCountByteOffset = s_featureTableBinaryByteOffset s + polygonIndexCount in
     bindE (newUint32Array arrayBuffer polygonIndexCountByteOffset numberOfPolygons) (\<lambda>indexCounts.
     bindE
       (if defined (POLYGON_MINIMUM_HEIGHTS (s_featureTableJson s))
           \<and> defined (POLYGON_MAXIMUM_HEIGHTS (s_featureTableJson s))
        then
          let polygonMinimumHeightsByteOffset =
                s_featureTableBinaryByteOffset s + the (POLYGON_MINIMUM_HEIGHTS (s_featureTableJson s)) in
          bindE (newUint32Array arrayBuffer polygonMinimumHeightsByteOffset numberOfPolygons)
            (\<lambda>polygonMinimumHeights.
          let polygonMaximumHeightsByteOffset =
                s_featureTableBinaryByteOffset s + the (POLYGON_MAXIMUM_HEIGHTS (s_featureTableJson s)) in
          bindE (newUint32Array arrayBuffer polygonMaximumHeightsByteOffset numberOfPolygons)
            (\<lambda>polygonMaximumHeights.
          Inr (Some polygonMinimumHeights, Some polygonMaximumHeights)))
        else Inr (None, None))
       (\<lambda>(polygonMinimumHeights, polygonMaximumHeights).
     Inr (\<lparr>minimumHeight = minHeight, maximumHeight = maxHeight, center = center',
            rectangle = rectangle', pg_positions = polygonPositions, pg_counts = counts,
            pg_indexCounts = indexCounts, pg_indices = indices,
            pg_polygonMinimumHeights = polygonMinimumHeights,
            pg_polygonMaximumHeights = polygonMaximumHeights,
            pg_batchIds = polygonBatchIds, pg_isCartographic = isCartographic'\<rparr>,
          byteOffset))))))))"

text \<open>\<^verbatim>\<open>for (i = 0; i < numberOfPolylines; ++i) { widths[i] = 2.0; }\<close>\<close>

function defaultWidths :: "nat \<Rightarrow> nat \<Rightarrow> real option list \<Rightarrow> real option list" where
  "defaultWidths i numberOfPolylines ws =
     (if i < numberOfPolylines then defaultWidths (i + 1) numberOfPolylines (ws[i := Some 2])
      else ws)"
  by pat_completeness auto
termination
  by (relation "measure (\<lambda>(i, n, ws). n - i)") auto

declare defaultWidths.simps [simp del]

text \<open>Lines 446 to 455; \<^verbatim>\<open>new Array(n)\<close> is an array of \<open>n\<close> holes.\<close>

definition polylineWidths :: "arrayBuffer \<Rightarrow> nat \<Rightarrow> featureTableJson \<Rightarrow> nat \<Rightarrow> error + widths" where
  "polylineWidths arrayBuffer featureTableBinaryByteOffset featureTableJson numberOfPolylines =
     (if \<not> defined (POLYLINE_WIDTHS featureTableJson)
      then Inr (Array (defaultWidths 0 numberOfPolylines (replicate numberOfPolylines None)))
      else
        let polylineWidthsByteOffset = featureTableBinaryByteOffset + the (POLYLINE_WIDTHS featureTableJson) in
        map_sum id Uint16Array (newUint16Array arrayBuffer polylineWidthsByteOffset numberOfPolylines))"

text \<open>Lines 439 to 469; the second component is \<open>byteOffset\<close> after line 441.\<close>

definition createPolylines ::
  "arrayBuffer \<Rightarrow> nat \<Rightarrow> 'j sections \<Rightarrow> nat \<Rightarrow> real option \<Rightarrow> real option \<Rightarrow> cartesian3 \<Rightarrow> rectangle
   \<Rightarrow> 16 word list option \<Rightarrow> error + polylinesOptions \<times> nat" where
  "createPolylines arrayBuffer byteOffset s numberOfPolylines minHeight maxHeight center' rectangle'
       polylineBatchIds =
     bindE (newUint16Array arrayBuffer byteOffset (s_polylinePositionByteLength s div sizeOfUint16))
       (\<lambda>polylinePositions.
     let byteOffset = byteOffset + s_polylinePositionByteLength s in
     bindE (byteOffsetOf (POLYLINE_COUNT (s_featureTableJson s))) (\<lambda>polylineCount.
     let polylineCountByteOffset = s_featureTableBinaryByteOffset s + polylineCount in
     bindE (newUint32Array arrayBuffer polylineCountByteOffset numberOfPolylines) (\<lambda>polylineCounts.
     bindE (polylineWidths arrayBuffer (s_featureTableBinaryByteOffset s) (s_featureTableJson s) numberOfPolylines)
       (\<lambda>widths.
     Inr (\<lparr>minimumHeight = minHeight, maximumHeight = maxHeight, center = center',
            rectangle = rectangle', pl_positions = polylinePositions, pl_widths = widths,
            pl_counts = polylineCounts, pl_batchIds = polylineBatchIds\<rparr>,
          byteOffset)))))"

subsection \<open>Points (lines 471 to 514 of initialize)\<close>

text \<open>
  Reading a typed array beyond its end gives \<^verbatim>\<open>undefined\<close>, here \<open>None\<close>;
  \<^verbatim>\<open>subarray(begin, end)\<close> is clamped to the array.
\<close>

definition element :: "'a list \<Rightarrow> nat \<Rightarrow> 'a option" where
  "element xs i = (if i < length xs then Some (xs ! i) else None)"

definition subarray :: "'a list \<Rightarrow> nat \<Rightarrow> nat \<Rightarrow> 'a list" where
  "subarray xs begin end = take (end - begin) (drop begin xs)"

text \<open>
  A point's position is computed from its decoded \<open>(u, v, height)\<close> in floating point
  (\<^verbatim>\<open>CesiumMath.lerp\<close>, \<^verbatim>\<open>cartographicToCartesian\<close>); the model keeps the decoded
  triple in its place.
\<close>

type_synonym quantizedPosition = "16 word option \<times> 16 word option \<times> 16 word option"

datatype verticalOrigin = CENTER | BOTTOM | TOP

record billboard =
  b_position :: quantizedPosition
  b_verticalOrigin :: verticalOrigin
  b_batchIndex :: "16 word option"

record label =
  l_text :: string
  l_position :: quantizedPosition
  l_verticalOrigin :: verticalOrigin
  l_batchIndex :: "16 word option"

record polyline =
  p_positions :: "quantizedPosition list"

text \<open>
  The loop of lines 486 to 513 over the three collections; \<^verbatim>\<open>pointBatchIds[i]\<close>
  is a TypeError when \<^verbatim>\<open>pointBatchIds\<close> is undefined.
\<close>

function pointsLoop ::
  "nat \<Rightarrow> nat \<Rightarrow> 16 word list option \<Rightarrow> 16 word list \<Rightarrow> 16 word list \<Rightarrow> 16 word list
   \<Rightarrow> billboard list \<times> label list \<times> polyline list
   \<Rightarrow> (billboard list \<times> label list \<times> polyline list) \<times> outcome" where
  "pointsLoop i numberOfPoints pointBatchIds uBuffer vBuffer heightBuffer collections =
     (if i < numberOfPoints then
        (case pointBatchIds of
           None \<Rightarrow> (collections, Threw TypeError)
         | Some ids \<Rightarrow>
             let id = element ids i;
                 u = element uBuffer i;
                 v = element vBuffer i;
                 height = element heightBuffer i;
                 position = (u, v, height);
                 b = \<lparr>b_position = position, b_verticalOrigin = BOTTOM, b_batchIndex = id\<rparr>;
                 l = \<lparr>l_text = '' '', l_position = position, l_verticalOrigin = BOTTOM, l_batchIndex = id\<rparr>;
                 p = \<lparr>p_positions = [position, position]\<rparr>
             in (case collections of (billboardCollection, labelCollection, polylineCollection) \<Rightarrow>
                  pointsLoop (i + 1) numberOfPoints pointBatchIds uBuffer vBuffer heightBuffer
                    (billboardCollection @ [b], labelCollection @ [l], polylineCollection @ [p])))
      else (collections, Returned))"
  by pat_completeness auto
termination
  by (relation "measure (\<lambda>(i, n, ids, u, v, h, c). n - i)") auto

declare pointsLoop.simps [simp del]

subsection \<open>The content object\<close>

datatype deferred = Pending | Resolved

text \<open>
  Modelled from the spec: \<^verbatim>\<open>Cesium3DTileBatchTable\<close> is not among the sources. The spec
  sizes the batch table by the primitive counts (its capacity is polygons + polylines +
  points), so \<open>bt_featuresLength\<close> is the count the constructor is given.
\<close>

record 'j cesium3DTileBatchTable =
  bt_featuresLength :: nat
  bt_batchTableJson :: "'j option"
  bt_batchTableBinary :: "8 word list option"

record tile =
  contentBoundingVolumeRectangle :: rectangle

datatype labelStyle = FILL | OUTLINE | FILL_AND_OUTLINE

type_synonym color = "real \<times> real \<times> real \<times> real"
type_synonym cartesian2 = "real \<times> real"
type_synonym cartesian4 = "real \<times> real \<times> real \<times> real"

datatype nearFarScalar = NearFarScalar real real real real

datatype distanceDisplayCondition = DistanceDisplayCondition real real

definition WHITE :: color where
  "WHITE = (1, 1, 1, 1)"

definition BLACK :: color where
  "BLACK = (0, 0, 0, 1)"

text \<open>
  Modelled from the spec: \<^verbatim>\<open>Cesium3DTileFeature\<close> is not among the sources. The spec
  describes it as a facade exposing the style-writable properties; the record holds the
  value last written to each property (\<open>None\<close> is \<^verbatim>\<open>undefined\<close>). \<open>scaleBydistance\<close>
  and \<open>distanceDisplatCondition\<close> are the two properties that applyStyle creates on the
  object under these spellings. \<open>billboardImageUpdates\<close> counts the runs of
  \<^verbatim>\<open>_setBillboardImage\<close>, the spec's billboard-image-resolution step.
\<close>

record feature =
  f_batchId :: nat
  f_hasCollections :: bool
  show' :: bool
  color :: color
  pointSize :: real
  pointColor :: color
  pointOutlineColor :: color
  pointOutlineWidth :: real
  labelOutlineColor :: color
  labelOutlineWidth :: real
  font :: string
  labelStyle :: labelStyle
  labelText :: "string option"
  backgroundColor :: "color option"
  backgroundPadding :: "cartesian2 option"
  backgroundEnabled :: bool
  scaleByDistance :: "nearFarScalar option"
  translucencyByDistance :: "nearFarScalar option"
  distanceDisplayCondition :: "distanceDisplayCondition option"
  heightOffset :: real
  anchorLineEnabled :: bool
  anchorLineColor :: color
  image' :: "string option"
  scaleBydistance :: "nearFarScalar option"
  distanceDisplatCondition :: "distanceDisplayCondition option"
  billboardImageUpdates :: nat

definition setBillboardImage :: "feature \<Rightarrow> feature" where
  "setBillboardImage f = f\<lparr>billboardImageUpdates := billboardImageUpdates f + 1\<rparr>"

text \<open>
  The private members of the content, \<open>c_polygons\<close> for \<^verbatim>\<open>_polygons\<close> and so on. The
  tileset and the url are stored and handed back unchanged and are left out.
  \<open>c_destroyed\<close> is set by \<^verbatim>\<open>destroyObject\<close> alone.
\<close>

record 'j content =
  c_tile :: tile
  c_polygons :: "polygonsOptions option"
  c_polylines :: "polylinesOptions option"
  c_billboardCollection :: "billboard list option"
  c_labelCollection :: "label list option"
  c_polylineCollection :: "polyline list option"
  c_readyPromise :: deferred
  c_batchTable :: "'j cesium3DTileBatchTable option"
  c_features :: "feature list option"
  featurePropertiesDirty :: bool
  c_destroyed :: bool

text \<open>The getters of lines 88 to 196.\<close>

definition featuresLength :: "'j content \<Rightarrow> nat" where
  "featuresLength content =
     (case c_batchTable content of Some batchTable \<Rightarrow> bt_featuresLength batchTable | None \<Rightarrow> 0)"

definition pointsLength :: "'j content \<Rightarrow> nat" where
  "pointsLength content = 0"

definition trianglesLength :: "'j content \<Rightarrow> nat" where
  "trianglesLength content = 0"

definition readyPromise :: "'j content \<Rightarrow> deferred" where
  "readyPromise content = c_readyPromise content"

definition batchTable :: "'j content \<Rightarrow> 'j cesium3DTileBatchTable option" where
  "batchTable content = c_batchTable content"

subsection \<open>initialize\<close>

text \<open>Lines 471 to 514, entered when \<open>numberOfPoints > 0\<close>.\<close>

definition createPoints ::
  "'j content \<Rightarrow> arrayBuffer \<Rightarrow> nat \<Rightarrow> nat \<Rightarrow> nat \<Rightarrow> 16 word list option \<Rightarrow> 'j content \<times> outcome" where
  "createPoints content arrayBuffer byteOffset pointsPositionByteLength numberOfPoints pointBatchIds =
     (case newUint16Array arrayBuffer byteOffset (pointsPositionByteLength div sizeOfUint16) of
        Inl e \<Rightarrow> (content, Threw e)
      | Inr pointPositions \<Rightarrow>
          let content = content\<lparr>c_billboardCollection := Some [], c_labelCollection := Some [],
                                c_polylineCollection := Some []\<rparr>;
              uBuffer = subarray pointPositions 0 numberOfPoints;
              vBuffer = subarray pointPositions numberOfPoints (2 * numberOfPoints);
              heightBuffer = subarray pointPositions (2 * numberOfPoints) (3 * numberOfPoints)
          in (case zigZagDeltaDecode uBuffer vBuffer heightBuffer of (uBuffer, vBuffer, heightBuffer) \<Rightarrow>
               (case pointsLoop 0 numberOfPoints pointBatchIds uBuffer vBuffer heightBuffer ([], [], []) of
                  ((billboardCollection, labelCollection, polylineCollection), result) \<Rightarrow>
                    (content\<lparr>c_billboardCollection := Some billboardCollection,
                             c_labelCollection := Some labelCollection,
                             c_polylineCollection := Some polylineCollection\<rparr>, result))))"

text \<open>Lines 306 to 514, after the batch table has been created and \<open>totalPrimitives > 0\<close>.\<close>

definition createPrimitives ::
  "'j content \<Rightarrow> arrayBuffer \<Rightarrow> 'j sections \<Rightarrow> nat \<Rightarrow> nat \<Rightarrow> nat \<Rightarrow> 'j content \<times> outcome" where
  "createPrimitives content arrayBuffer s numberOfPolygons numberOfPolylines numberOfPoints =
     (let featureTableJson = s_featureTableJson s;
          byteOffset = s_sectionsEnd s;
          center = (case RTC_CENTER featureTableJson of Some c \<Rightarrow> c | None \<Rightarrow> (0, 0, 0));
          rectangle = (case RECTANGLE featureTableJson of Some r \<Rightarrow> r
                       | None \<Rightarrow> contentBoundingVolumeRectangle (c_tile content));
          minHeight = MINIMUM_HEIGHT featureTableJson;
          maxHeight = MAXIMUM_HEIGHT featureTableJson;
          format = defaultValue (FORMAT featureTableJson) 0;
          isCartographic = (format = 0)
      in case resolveBatchIds arrayBuffer (s_featureTableBinaryByteOffset s) featureTableJson
                numberOfPolygons numberOfPolylines numberOfPoints of
           Inl e \<Rightarrow> (content, Threw e)
         | Inr (polygonBatchIds, polylineBatchIds, pointBatchIds) \<Rightarrow>
      let (content, byteOffset, result) =
            (if numberOfPolygons > 0 then
               (case createPolygons arrayBuffer byteOffset s numberOfPolygons minHeight maxHeight
                       center rectangle isCartographic polygonBatchIds of
                  Inl e \<Rightarrow> (content, byteOffset, Threw e)
                | Inr (polygons, byteOffset) \<Rightarrow>
                    (content\<lparr>c_polygons := Some polygons\<rparr>, byteOffset, Returned))
             else (content, byteOffset, Returned))
      in if result \<noteq> Returned then (content, result) else
      let (content, byteOffset, result) =
            (if numberOfPolylines > 0 then
               (case createPolylines arrayBuffer byteOffset s numberOfPolylines minHeight maxHeight
                       center rectangle polylineBatchIds of
                  Inl e \<Rightarrow> (content, byteOffset, Threw e)
                | Inr (polylines, byteOffset) \<Rightarrow>
                    (content\<lparr>c_polylines := Some polylines\<rparr>, byteOffset, Returned))
             else (content, byteOffset, Returned))
      in if result \<noteq> Returned then (content, result) else
      if numberOfPoints > 0
      then createPoints content arrayBuffer byteOffset (s_pointsPositionByteLength s) numberOfPoints
             pointBatchIds
      else (content, Returned))"

text \<open>
  Lines 234 to 515 of initialize, from the read of \<^verbatim>\<open>byteLength\<close> on; \<open>byteOffset\<close>
  is the offset of that field.
\<close>

definition decodeTile ::
  "(8 word list \<Rightarrow> nat \<Rightarrow> nat \<Rightarrow> error + featureTableJson) \<Rightarrow> (8 word list \<Rightarrow> nat \<Rightarrow> nat \<Rightarrow> error + 'j)
   \<Rightarrow> 'j content \<Rightarrow> arrayBuffer \<Rightarrow> nat \<Rightarrow> 'j content \<times> outcome" where
  "decodeTile parseFeatureTable parseBatchTable content arrayBuffer byteOffset =
     (case getUint32 arrayBuffer byteOffset of Inl e \<Rightarrow> (content, Threw e) | Inr byteLength \<Rightarrow>
      let byteOffset = byteOffset + sizeOfUint32
      in if byteLength = 0 then (content\<lparr>c_readyPromise := Resolved\<rparr>, Returned) else
      case readSections parseFeatureTable parseBatchTable arrayBuffer byteOffset of
        Inl e \<Rightarrow> (content, Threw e)
      | Inr s \<Rightarrow>
      let numberOfPolygons = defaultValue (POLYGONS_LENGTH (s_featureTableJson s)) 0;
          numberOfPolylines = defaultValue (POLYLINES_LENGTH (s_featureTableJson s)) 0;
          numberOfPoints = defaultValue (POINTS_LENGTH (s_featureTableJson s)) 0;
          totalPrimitives = numberOfPolygons + numberOfPolylines + numberOfPoints;
          batchTable = \<lparr>bt_featuresLength = totalPrimitives, bt_batchTableJson = s_batchTableJson s,
                        bt_batchTableBinary = s_batchTableBinary s\<rparr>;
          content = content\<lparr>c_batchTable := Some batchTable\<rparr>
      in if totalPrimitives = 0 then (content, Returned)
         else createPrimitives content arrayBuffer s numberOfPolygons numberOfPolylines numberOfPoints)"

text \<open>
  \<^verbatim>\<open>initialize(content, arrayBuffer, byteOffset)\<close>, lines 214 to 515: the checks of the
  magic and of the version, then the rest. The result is the content as the call leaves
  it, together with how the call ended; what was assigned to the content before a throw
  stays assigned.
\<close>

definition initialize ::
  "(8 word list \<Rightarrow> nat \<Rightarrow> nat \<Rightarrow> error + featureTableJson) \<Rightarrow> (8 word list \<Rightarrow> nat \<Rightarrow> nat \<Rightarrow> error + 'j)
   \<Rightarrow> 'j content \<Rightarrow> arrayBuffer \<Rightarrow> nat option \<Rightarrow> 'j content \<times> outcome" where
  "initialize parseFeatureTable parseBatchTable content arrayBuffer byteOffset =
     (let byteOffset = defaultValue byteOffset 0;
          uint8Array = arrayBuffer;
          magic = getMagic uint8Array byteOffset
      in if magic \<noteq> ''vctr'' then (content, Threw (DeveloperError (InvalidMagic magic))) else
      let byteOffset = byteOffset + sizeOfUint32
      in case getUint32 arrayBuffer byteOffset of Inl e \<Rightarrow> (content, Threw e) | Inr version \<Rightarrow>
      if version \<noteq> 1 then (content, Threw (DeveloperError (UnsupportedVersion version))) else
      let byteOffset = byteOffset + sizeOfUint32
      in decodeTile parseFeatureTable parseBatchTable content arrayBuffer byteOffset)"

text \<open>
  The constructor, lines 64 to 86: the fresh content, then initialize. When the outcome
  is a throw the caller receives no content; the first component then shows what had been
  assigned when the throw happened.
\<close>

definition newContent :: "tile \<Rightarrow> 'j content" where
  "newContent tile' =
     \<lparr>c_tile = tile', c_polygons = None, c_polylines = None, c_billboardCollection = None,
      c_labelCollection = None, c_polylineCollection = None, c_readyPromise = Pending,
      c_batchTable = None, c_features = None, featurePropertiesDirty = False,
      c_destroyed = False\<rparr>"

definition Vector3DTileContent ::
  "(8 word list \<Rightarrow> nat \<Rightarrow> nat \<Rightarrow> error + featureTableJson) \<Rightarrow> (8 word list \<Rightarrow> nat \<Rightarrow> nat \<Rightarrow> error + 'j)
   \<Rightarrow> tile \<Rightarrow> arrayBuffer \<Rightarrow> nat option \<Rightarrow> 'j content \<times> outcome" where
  "Vector3DTileContent parseFeatureTable parseBatchTable tile' arrayBuffer byteOffset =
     initialize parseFeatureTable parseBatchTable (newContent tile') arrayBuffer byteOffset"

subsection \<open>Features and styles\<close>

text \<open>
  \<open>newFeature i withCollections\<close> stands for \<^verbatim>\<open>new Cesium3DTileFeature(tileset, content, i,
  ...)\<close>, with or without the three collections; the constructor is not among the
  sources.
\<close>

definition createFeatures :: "(nat \<Rightarrow> bool \<Rightarrow> feature) \<Rightarrow> 'j content \<Rightarrow> 'j content" where
  "createFeatures newFeature content =
     (let featuresLength = featuresLength content in
      if \<not> defined (c_features content) \<and> featuresLength > 0 then
        let billboardCollection = c_billboardCollection content;
            features =
              map (\<lambda>i. if (case billboardCollection of Some bs \<Rightarrow> i < length bs | None \<Rightarrow> False)
                        then newFeature i True else newFeature i False)
                [0..<featuresLength]
        in content\<lparr>c_features := Some features\<rparr>
      else content)"

text \<open>
  \<^verbatim>\<open>getFeature(batchId)\<close>: the content after createFeatures and the feature; reading
  \<^verbatim>\<open>this._features[batchId]\<close> of an undefined \<^verbatim>\<open>_features\<close> is a TypeError.
\<close>

definition getFeature ::
  "(nat \<Rightarrow> bool \<Rightarrow> feature) \<Rightarrow> 'j content \<Rightarrow> nat \<Rightarrow> error + 'j content \<times> feature option" where
  "getFeature newFeature content batchId =
     (let featuresLength = featuresLength content in
      if batchId \<ge> featuresLength then Inl (DeveloperError BatchIdOutOfRange) else
      let content = createFeatures newFeature content in
      case c_features content of
        None \<Rightarrow> Inl TypeError
      | Some features \<Rightarrow> Inr (content, element features batchId))"

text \<open>
  A write to a property of the feature object that getFeature returned: the object is
  the one held in \<^verbatim>\<open>_features[i]\<close>.
\<close>

definition storeFeature :: "'j content \<Rightarrow> nat \<Rightarrow> feature \<Rightarrow> 'j content" where
  "storeFeature content i feature =
     content\<lparr>c_features := map_option (\<lambda>features. features[i := feature]) (c_features content)\<rparr>"

text \<open>The body of the loop of clearStyle, lines 577 to 599.\<close>

definition clearFeature :: "feature \<Rightarrow> feature" where
  "clearFeature feature =
     (let feature = feature\<lparr>show' := True\<rparr>;
          feature = feature\<lparr>color := WHITE\<rparr>;
          feature = feature\<lparr>pointSize := 8\<rparr>;
          feature = feature\<lparr>pointColor := WHITE\<rparr>;
          feature = feature\<lparr>pointOutlineColor := BLACK\<rparr>;
          feature = feature\<lparr>pointOutlineWidth := 0\<rparr>;
          feature = feature\<lparr>labelOutlineColor := WHITE\<rparr>;
          feature = feature\<lparr>labelOutlineWidth := 1\<rparr>;
          feature = feature\<lparr>font := ''30px sans-serif''\<rparr>;
          feature = feature\<lparr>labelStyle := FILL\<rparr>;
          feature = feature\<lparr>labelText := None\<rparr>;
          feature = feature\<lparr>backgroundColor := None\<rparr>;
          feature = feature\<lparr>backgroundPadding := None\<rparr>;
          feature = feature\<lparr>backgroundEnabled := False\<rparr>;
          feature = feature\<lparr>scaleByDistance := None\<rparr>;
          feature = feature\<lparr>translucencyByDistance := None\<rparr>;
          feature = feature\<lparr>distanceDisplayCondition := None\<rparr>;
          feature = feature\<lparr>heightOffset := 0\<rparr>;
          feature = feature\<lparr>anchorLineEnabled := False\<rparr>;
          feature = feature\<lparr>anchorLineColor := WHITE\<rparr>;
          feature = feature\<lparr>image' := None\<rparr>
      in setBillboardImage feature)"

text \<open>
  The loop of clearStyle; a property write on an undefined feature is a TypeError.
\<close>

function clearStyleLoop ::
  "(nat \<Rightarrow> bool \<Rightarrow> feature) \<Rightarrow> nat \<Rightarrow> nat \<Rightarrow> 'j content \<Rightarrow> 'j content \<times> outcome" where
  "clearStyleLoop newFeature i len content =
     (if i < len then
        (case getFeature newFeature content i of
           Inl e \<Rightarrow> (content, Threw e)
         | Inr (content, None) \<Rightarrow> (content, Threw TypeError)
         | Inr (content, Some feature) \<Rightarrow>
             clearStyleLoop newFeature (i + 1) len (storeFeature content i (clearFeature feature)))
      else (content, Returned))"
  by pat_completeness auto
termination
  by (relation "measure (\<lambda>(newFeature, i, len, content). len - i)") auto

declare clearStyleLoop.simps [simp del]

text \<open>clearStyle, lines 572 to 601: \<^verbatim>\<open>content._features.length\<close> needs \<^verbatim>\<open>_features\<close>.\<close>

definition clearStyle :: "(nat \<Rightarrow> bool \<Rightarrow> feature) \<Rightarrow> 'j content \<Rightarrow> 'j content \<times> outcome" where
  "clearStyle newFeature content =
     (case c_features content of
        None \<Rightarrow> (content, Threw TypeError)
      | Some features \<Rightarrow> clearStyleLoop newFeature 0 (length features) content)"

text \<open>
  A style: one evaluator per property, \<open>None\<close> where the source tests the expression
  with \<^verbatim>\<open>defined\<close>. \<open>style_color\<close> stands for \<^verbatim>\<open>style.color.evaluateColor\<close>,
  \<open>style_show\<close> for \<^verbatim>\<open>style.show.evaluate\<close>, and so on; the scratch colours the
  source passes are not modelled.
\<close>

record 'fs style =
  style_color :: "'fs \<Rightarrow> feature \<Rightarrow> color"
  style_show :: "'fs \<Rightarrow> feature \<Rightarrow> bool"
  style_pointSize :: "'fs \<Rightarrow> feature \<Rightarrow> real"
  style_pointColor :: "'fs \<Rightarrow> feature \<Rightarrow> color"
  style_pointOutlineColor :: "'fs \<Rightarrow> feature \<Rightarrow> color"
  style_pointOutlineWidth :: "'fs \<Rightarrow> feature \<Rightarrow> real"
  style_labelOutlineColor :: "'fs \<Rightarrow> feature \<Rightarrow> color"
  style_labelOutlineWidth :: "'fs \<Rightarrow> feature \<Rightarrow> real"
  style_font :: "'fs \<Rightarrow> feature \<Rightarrow> string"
  style_labelStyle :: "'fs \<Rightarrow> feature \<Rightarrow> labelStyle"
  style_labelText :: "('fs \<Rightarrow> feature \<Rightarrow> string) option"
  style_backgroundColor :: "('fs \<Rightarrow> feature \<Rightarrow> color) option"
  style_backgroundPadding :: "('fs \<Rightarrow> feature \<Rightarrow> cartesian2) option"
  style_backgroundEnabled :: "'fs \<Rightarrow> feature \<Rightarrow> bool"
  style_scaleByDistance :: "('fs \<Rightarrow> feature \<Rightarrow> cartesian4) option"
  style_translucencyByDistance :: "('fs \<Rightarrow> feature \<Rightarrow> cartesian4) option"
  style_distanceDisplayCondition :: "('fs \<Rightarrow> feature \<Rightarrow> cartesian2) option"
  style_heightOffset :: "'fs \<Rightarrow> feature \<Rightarrow> real"
  style_anchorLineEnabled :: "'fs \<Rightarrow> feature \<Rightarrow> bool"
  style_anchorLineColor :: "'fs \<Rightarrow> feature \<Rightarrow> color"
  style_image :: "('fs \<Rightarrow> feature \<Rightarrow> string) option"

definition fromCartesian4 :: "cartesian4 \<Rightarrow> nearFarScalar" where
  "fromCartesian4 c = (case c of (x, y, z, w) \<Rightarrow> NearFarScalar x y z w)"

definition fromCartesian2 :: "cartesian2 \<Rightarrow> distanceDisplayCondition" where
  "fromCartesian2 c = (case c of (x, y) \<Rightarrow> DistanceDisplayCondition x y)"

text \<open>The body of the loop of applyStyle, lines 624 to 682.\<close>

definition styleFeature :: "'fs \<Rightarrow> 'fs style \<Rightarrow> feature \<Rightarrow> feature" where
  "styleFeature frameState style feature =
     (let feature = feature\<lparr>color := style_color style frameState feature\<rparr>;
          feature = feature\<lparr>show' := style_show style frameState feature\<rparr>;
          feature = feature\<lparr>pointSize := style_pointSize style frameState feature\<rparr>;
          feature = feature\<lparr>pointColor := style_pointColor style frameState feature\<rparr>;
          feature = feature\<lparr>pointOutlineColor := style_pointOutlineColor style frameState feature\<rparr>;
          feature = feature\<lparr>pointOutlineWidth := style_pointOutlineWidth style frameState feature\<rparr>;
          feature = feature\<lparr>labelOutlineColor := style_labelOutlineColor style frameState feature\<rparr>;
          feature = feature\<lparr>labelOutlineWidth := style_labelOutlineWidth style frameState feature\<rparr>;
          feature = feature\<lparr>font := style_font style frameState feature\<rparr>;
          feature = feature\<lparr>labelStyle := style_labelStyle style frameState feature\<rparr>;
          feature = (case style_labelText style of
                       Some e \<Rightarrow> feature\<lparr>labelText := Some (e frameState feature)\<rparr>
                     | None \<Rightarrow> feature\<lparr>labelText := None\<rparr>);
          feature = (case style_backgroundColor style of
                       Some e \<Rightarrow> feature\<lparr>backgroundColor := Some (e frameState feature)\<rparr>
                     | None \<Rightarrow> feature);
          feature = (case style_backgroundPadding style of
                       Some e \<Rightarrow> feature\<lparr>backgroundPadding := Some (e frameState feature)\<rparr>
                     | None \<Rightarrow> feature);
          feature = feature\<lparr>backgroundEnabled := style_backgroundEnabled style frameState feature\<rparr>;
          feature = (case style_scaleByDistance style of
                       Some e \<Rightarrow>
                         let scaleByDistanceCart4 = e frameState feature
                         in feature\<lparr>scaleByDistance := Some (fromCartesian4 scaleByDistanceCart4)\<rparr>
                     | None \<Rightarrow> feature\<lparr>scaleBydistance := None\<rparr>);
          feature = (case style_translucencyByDistance style of
                       Some e \<Rightarrow>
                         let translucencyByDistanceCart4 = e frameState feature
                         in feature\<lparr>translucencyByDistance := Some (fromCartesian4 translucencyByDistanceCart4)\<rparr>
                     | None \<Rightarrow> feature\<lparr>translucencyByDistance := None\<rparr>);
          feature = (case style_distanceDisplayCondition style of
                       Some e \<Rightarrow>
                         let distanceDisplayConditionCart2 = e frameState feature
                         in feature\<lparr>distanceDisplatCondition :=
                                      Some (fromCartesian2 distanceDisplayConditionCart2)\<rparr>
                     | None \<Rightarrow> feature\<lparr>distanceDisplayCondition := None\<rparr>);
          feature = feature\<lparr>heightOffset := style_heightOffset style frameState feature\<rparr>;
          feature = feature\<lparr>anchorLineEnabled := style_anchorLineEnabled style frameState feature\<rparr>;
          feature = feature\<lparr>anchorLineColor := style_anchorLineColor style frameState feature\<rparr>;
          feature = (case style_image style of
                       Some e \<Rightarrow> feature\<lparr>image' := Some (e frameState feature)\<rparr>
                     | None \<Rightarrow> feature\<lparr>image' := None\<rparr>)
      in setBillboardImage feature)"

function applyStyleLoop ::
  "(nat \<Rightarrow> bool \<Rightarrow> feature) \<Rightarrow> 'fs \<Rightarrow> 'fs style \<Rightarrow> nat \<Rightarrow> nat \<Rightarrow> 'j content \<Rightarrow> 'j content \<times> outcome" where
  "applyStyleLoop newFeature frameState style i len content =
     (if i < len then
        (case getFeature newFeature content i of
           Inl e \<Rightarrow> (content, Threw e)
         | Inr (content, None) \<Rightarrow> (content, Threw TypeError)
         | Inr (content, Some feature) \<Rightarrow>
             applyStyleLoop newFeature frameState style (i + 1) len
               (storeFeature content i (styleFeature frameState style feature)))
      else (content, Returned))"
  by pat_completeness auto
termination
  by (relation "measure (\<lambda>(newFeature, frameState, style, i, len, content). len - i)") auto

declare applyStyleLoop.simps [simp del]

text \<open>applyStyle, lines 613 to 684; an undefined style is \<open>None\<close>.\<close>

definition applyStyle ::
  "(nat \<Rightarrow> bool \<Rightarrow> feature) \<Rightarrow> 'j content \<Rightarrow> 'fs \<Rightarrow> 'fs style option \<Rightarrow> 'j content \<times> outcome" where
  "applyStyle newFeature content frameState style =
     (let content = createFeatures newFeature content in
      case style of
        None \<Rightarrow> clearStyle newFeature content
      | Some style \<Rightarrow>
          (case c_features content of
             None \<Rightarrow> (content, Threw TypeError)
           | Some features \<Rightarrow> applyStyleLoop newFeature frameState style 0 (length features) content))"

subsection \<open>Destruction\<close>

text \<open>
  \<^verbatim>\<open>member && member.destroy()\<close>: the \<^verbatim>\<open>destroy\<close> of a primitive set, of a collection
  and of the batch table returns \<^verbatim>\<open>undefined\<close>.
\<close>

definition destroyMember :: "'a option \<Rightarrow> 'a option" where
  "destroyMember member = (case member of None \<Rightarrow> None | Some m \<Rightarrow> None)"

text \<open>
  Modelled from the spec: \<^verbatim>\<open>Core/destroyObject\<close> is not among the sources. The spec says
  that after destruction \<^verbatim>\<open>isDestroyed\<close> returns true; the model marks the object, and
  the mark replaces the \<^verbatim>\<open>isDestroyed\<close> of the prototype.
\<close>

definition destroyObject :: "'j content \<Rightarrow> 'j content" where
  "destroyObject content = content\<lparr>c_destroyed := True\<rparr>"

text \<open>Lines 724 to 726: the prototype's \<^verbatim>\<open>isDestroyed\<close> returns false.\<close>

definition isDestroyed :: "'j content \<Rightarrow> bool" where
  "isDestroyed content = (if c_destroyed content then True else False)"

text \<open>Lines 731 to 739.\<close>

definition destroy :: "'j content \<Rightarrow> 'j content" where
  "destroy content =
     (let content = content\<lparr>c_polygons := destroyMember (c_polygons content)\<rparr>;
          content = content\<lparr>c_polylines := destroyMember (c_polylines content)\<rparr>;
          content = content\<lparr>c_billboardCollection := destroyMember (c_billboardCollection content)\<rparr>;
          content = content\<lparr>c_labelCollection := destroyMember (c_labelCollection content)\<rparr>;
          content = content\<lparr>c_polylineCollection := destroyMember (c_polylineCollection content)\<rparr>;
          content = content\<lparr>c_batchTable := destroyMember (c_batchTable content)\<rparr>
      in destroyObject content)"

subsection \<open>Readings and example tiles used in the statements\<close>

definition batchIdsOf :: "16 word list option \<Rightarrow> 16 word list" where
  "batchIdsOf ids = (case ids of None \<Rightarrow> [] | Some xs \<Rightarrow> xs)"

text \<open>All batch ids of a tile, polygons first, then polylines, then points.\<close>

definition allBatchIds ::
  "error + (16 word list option \<times> 16 word list option \<times> 16 word list option) \<Rightarrow> 16 word list" where
  "allBatchIds r =
     (case r of
        Inl e \<Rightarrow> []
      | Inr (polygonBatchIds, polylineBatchIds, pointBatchIds) \<Rightarrow>
          batchIdsOf polygonBatchIds @ batchIdsOf polylineBatchIds @ batchIdsOf pointBatchIds)"

definition featureTableWithoutKeys :: featureTableJson where
  "featureTableWithoutKeys =
     \<lparr>POLYGONS_LENGTH = None, POLYLINES_LENGTH = None, POINTS_LENGTH = None,
      RTC_CENTER = None, RECTANGLE = None, MINIMUM_HEIGHT = None, MAXIMUM_HEIGHT = None,
      FORMAT = None, POLYGON_BATCH_IDS = None, POLYLINE_BATCH_IDS = None,
      POINT_BATCH_IDS = None, POLYGON_COUNT = None, POLYGON_INDEX_COUNT = None,
      POLYGON_MINIMUM_HEIGHTS = None, POLYGON_MAXIMUM_HEIGHTS = None,
      POLYLINE_COUNT = None, POLYLINE_WIDTHS = None\<rparr>"

definition featureTableWithPolygonIds :: featureTableJson where
  "featureTableWithPolygonIds = featureTableWithoutKeys\<lparr>POLYGON_BATCH_IDS := Some 0\<rparr>"

text \<open>Example tiles: a tile reference, parsers, buffers.\<close>

definition exampleTile :: tile where
  "exampleTile = \<lparr>contentBoundingVolumeRectangle = (0, 0, 1, 1)\<rparr>"

definition noJson :: "8 word list \<Rightarrow> nat \<Rightarrow> nat \<Rightarrow> error + 'a" where
  "noJson uint8Array byteOffset byteLength = Inl SyntaxError"

definition wrongMagicTile :: arrayBuffer where
  "wrongMagicTile = [120, 120, 120, 120, 1, 0, 0, 0, 0, 0, 0, 0]"

definition version2Tile :: arrayBuffer where
  "version2Tile = [118, 99, 116, 114, 2, 0, 0, 0, 0, 0, 0, 0]"

definition emptyTile :: arrayBuffer where
  "emptyTile = [118, 99, 116, 114, 1, 0, 0, 0, 0, 0, 0, 0]"

definition polylineSections :: "unit sections" where
  "polylineSections =
     \<lparr>s_indicesByteLength = 0, s_positionByteLength = 0, s_polylinePositionByteLength = 4,
      s_pointsPositionByteLength = 0,
      s_featureTableJson = featureTableWithoutKeys\<lparr>POLYLINES_LENGTH := Some 3, POLYLINE_COUNT := Some 0\<rparr>,
      s_featureTableBinaryByteOffset = 0, s_batchTableJson = None, s_batchTableBinary = None,
      s_sectionsEnd = 12\<rparr>"

definition polylineBuffer :: arrayBuffer where
  "polylineBuffer = [1, 0, 0, 0, 2, 0, 0, 0, 1, 0, 0, 0, 9, 0, 8, 0]"

definition twoPointsJson :: "8 word list \<Rightarrow> nat \<Rightarrow> nat \<Rightarrow> error + featureTableJson" where
  "twoPointsJson uint8Array byteOffset byteLength = Inr (featureTableWithoutKeys\<lparr>POINTS_LENGTH := Some 2\<rparr>)"

definition twoPointsTile :: arrayBuffer where
  "twoPointsTile =
     [118, 99, 116, 114,  1, 0, 0, 0,  58, 0, 0, 0,  2, 0, 0, 0,  0, 0, 0, 0,  0, 0, 0, 0,
      0, 0, 0, 0,  0, 0, 0, 0,  0, 0, 0, 0,  0, 0, 0, 0,  12, 0, 0, 0,
      123, 125,
      10, 0, 3, 0,  0, 0, 2, 0,  4, 0, 1, 0]"

definition twoPointsSections :: "unit sections" where
  "twoPointsSections =
     \<lparr>s_indicesByteLength = 0, s_positionByteLength = 0, s_polylinePositionByteLength = 0,
      s_pointsPositionByteLength = 12,
      s_featureTableJson = featureTableWithoutKeys\<lparr>POINTS_LENGTH := Some 2\<rparr>,
      s_featureTableBinaryByteOffset = 46, s_batchTableJson = None, s_batchTableBinary = None,
      s_sectionsEnd = 46\<rparr>"

definition twoPointsContent :: "unit content" where
  "twoPointsContent =
     (newContent exampleTile)
       \<lparr>c_billboardCollection :=
          Some [\<lparr>b_position = (Some 5, Some 0, Some 2), b_verticalOrigin = BOTTOM, b_batchIndex = Some 0\<rparr>,
                \<lparr>b_position = (Some 3, Some 1, Some 1), b_verticalOrigin = BOTTOM, b_batchIndex = Some 1\<rparr>],
        c_labelCollection :=
          Some [\<lparr>l_text = '' '', l_position = (Some 5, Some 0, Some 2), l_verticalOrigin = BOTTOM,
                  l_batchIndex = Some 0\<rparr>,
                \<lparr>l_text = '' '', l_position = (Some 3, Some 1, Some 1), l_verticalOrigin = BOTTOM,
                  l_batchIndex = Some 1\<rparr>],
        c_polylineCollection :=
          Some [\<lparr>p_positions = [(Some 5, Some 0, Some 2), (Some 5, Some 0, Some 2)]\<rparr>,
                \<lparr>p_positions = [(Some 3, Some 1, Some 1), (Some 3, Some 1, Some 1)]\<rparr>],
        c_batchTable :=
          Some \<lparr>bt_featuresLength = 2, bt_batchTableJson = None, bt_batchTableBinary = None\<rparr>\<rparr>"

text \<open>
  The defaults that clearStyle documents, and the relation between the feature array
  and the batch table that createFeatures establishes.
\<close>

definition documentedDefaults :: "feature \<Rightarrow> bool" where
  "documentedDefaults f \<longleftrightarrow>
     show' f = True \<and> color f = WHITE \<and> pointSize f = 8 \<and> pointColor f = WHITE
     \<and> pointOutlineColor f = BLACK \<and> pointOutlineWidth f = 0
     \<and> labelOutlineColor f = WHITE \<and> labelOutlineWidth f = 1
     \<and> font f = ''30px sans-serif'' \<and> labelStyle f = FILL \<and> labelText f = None
     \<and> backgroundColor f = None \<and> backgroundPadding f = None \<and> backgroundEnabled f = False
     \<and> scaleByDistance f = None \<and> translucencyByDistance f = None
     \<and> distanceDisplayCondition f = None \<and> heightOffset f = 0
     \<and> anchorLineEnabled f = False \<and> anchorLineColor f = WHITE \<and> image' f = None"

definition featuresConsistent :: "'j content \<Rightarrow> bool" where
  "featuresConsistent content =
     (case c_features content of None \<Rightarrow> True | Some features \<Rightarrow> length features = featuresLength content)"

text \<open>A feature constructor and a style that defines distanceDisplayCondition.\<close>

definition exampleFeature :: "nat \<Rightarrow> bool \<Rightarrow> feature" where
  "exampleFeature batchId withCollections =
     \<lparr>f_batchId = batchId, f_hasCollections = withCollections, show' = False, color = BLACK,
      pointSize = 1, pointColor = BLACK, pointOutlineColor = WHITE, pointOutlineWidth = 3,
      labelOutlineColor = BLACK, labelOutlineWidth = 4, font = ''serif'', labelStyle = OUTLINE,
      labelText = None, backgroundColor = None, backgroundPadding = None, backgroundEnabled = True,
      scaleByDistance = None, translucencyByDistance = None, distanceDisplayCondition = None,
      heightOffset = 5, anchorLineEnabled = True, anchorLineColor = BLACK, image' = None,
      scaleBydistance = None, distanceDisplatCondition = None, billboardImageUpdates = 0\<rparr>"

definition exampleStyle :: "unit style" where
  "exampleStyle =
     \<lparr>style_color = (\<lambda>frameState feature. WHITE), style_show = (\<lambda>frameState feature. True),
      style_pointSize = (\<lambda>frameState feature. 8), style_pointColor = (\<lambda>frameState feature. WHITE),
      style_pointOutlineColor = (\<lambda>frameState feature. BLACK),
      style_pointOutlineWidth = (\<lambda>frameState feature. 0),
      style_labelOutlineColor = (\<lambda>frameState feature. WHITE),
      style_labelOutlineWidth = (\<lambda>frameState feature. 1),
      style_font = (\<lambda>frameState feature. ''30px sans-serif''),
      style_labelStyle = (\<lambda>frameState feature. FILL), style_labelText = None,
      style_backgroundColor = None, style_backgroundPadding = None,
      style_backgroundEnabled = (\<lambda>frameState feature. False), style_scaleByDistance = None,
      style_translucencyByDistance = None,
      style_distanceDisplayCondition = Some (\<lambda>frameState feature. (10, 100)),
      style_heightOffset = (\<lambda>frameState feature. 0),
      style_anchorLineEnabled = (\<lambda>frameState feature. False),
      style_anchorLineColor = (\<lambda>frameState feature. WHITE), style_image = None\<rparr>"

definition keepsDistanceDisplayCondition :: "distanceDisplayCondition option \<Rightarrow> feature \<Rightarrow> bool" where
  "keepsDistanceDisplayCondition d f \<longleftrightarrow> distanceDisplayCondition f = d"

section \<open>Batch ids\<close>

lemma assignIds_length: "length (fst (assignIds i n ids m)) = length ids"
  by (induction i n ids m rule: assignIds.induct) (subst assignIds.simps, simp)

lemma assignIds_counter: "snd (assignIds i n ids m) = m + int (n - i)"
proof (induction i n ids m rule: assignIds.induct)
  case (1 i n ids maxId)
  show ?case
  proof (cases "i < n")
    case True
    with 1 show ?thesis by (subst assignIds.simps) (simp add: Suc_diff_Suc)
  next
    case False
    then show ?thesis by (subst assignIds.simps) simp
  qed
qed

lemma assignIds_nth:
  "k < length ids \<Longrightarrow> length ids = n \<Longrightarrow>
   fst (assignIds i n ids m) ! k = (if k < i then ids ! k else word_of_int (m + int (k - i)))"
proof (induction i n ids m rule: assignIds.induct)
  case (1 i n ids maxId)
  show ?case
  proof (cases "i < n")
    case True
    have "fst (assignIds i n ids maxId) ! k =
          fst (assignIds (i + 1) n (ids[i := word_of_int maxId]) (maxId + 1)) ! k"
      using True by (subst assignIds.simps) simp
    also have "\<dots> = (if k < i + 1 then (ids[i := word_of_int maxId]) ! k
                      else word_of_int (maxId + 1 + int (k - (i + 1))))"
      using 1 True by simp
    also have "\<dots> = (if k < i then ids ! k else word_of_int (maxId + int (k - i)))"
      using True 1(2,3) by (auto simp: nth_list_update less_Suc_eq algebra_simps)
    finally show ?thesis .
  next
    case False
    with 1 show ?thesis by (subst assignIds.simps) simp
  qed
qed

text \<open>The loop fills a fresh array with the counter's successive values, modulo 65536.\<close>

lemma assignIds_replicate:
  "assignIds 0 n (replicate n 0) (int m) = (map word_of_nat [m..<m + n], int (m + n))"
proof -
  have "fst (assignIds 0 n (replicate n 0) (int m)) = map word_of_nat [m..<m + n]"
    by (rule nth_equalityI) (simp_all add: assignIds_length assignIds_nth)
  moreover have "snd (assignIds 0 n (replicate n 0) (int m)) = int (m + n)"
    by (simp add: assignIds_counter)
  ultimately show ?thesis by (simp add: prod_eq_iff)
qed

lemma explicitBatchIds_absent: "explicitBatchIds buffer off n None = Inr None"
  by (simp add: explicitBatchIds_def defined_def)

lemma explicitBatchIds_defined:
  "0 < n \<Longrightarrow> key \<noteq> None \<Longrightarrow> explicitBatchIds buffer off n key = Inr ids \<Longrightarrow> defined ids"
  by (auto simp: explicitBatchIds_def defined_def map_sum_def split: sum.splits)

lemma synthesizeBatchIds_none:
  "synthesizeBatchIds np nl npt None None None =
     (if 0 < np then Some (map word_of_nat [0..<np]) else None,
      if 0 < nl then Some (map word_of_nat [np..<np + nl]) else None,
      if 0 < npt then Some (map word_of_nat [np + nl..<np + nl + npt]) else None)"
proof -
  have start: "(- 1 :: int) + 1 = int 0" by simp
  show ?thesis
    unfolding synthesizeBatchIds_def Let_def defined_def option.case start
    by (simp add: assignIds_replicate assignIds_replicate [of _ 0, simplified] del: of_nat_add)
qed

lemma synthesizeBatchIds_explicit:
  "defined polygonBatchIds \<or> defined polylineBatchIds \<or> defined pointBatchIds \<Longrightarrow>
   synthesizeBatchIds np nl npt polygonBatchIds polylineBatchIds pointBatchIds =
     (polygonBatchIds, polylineBatchIds, pointBatchIds)"
  by (auto simp: synthesizeBatchIds_def)

lemma allBatchIds_synthesized:
  "allBatchIds (Inr (if 0 < np then Some (map word_of_nat [0..<np]) else None,
      if 0 < nl then Some (map word_of_nat [np..<np + nl]) else None,
      if 0 < npt then Some (map word_of_nat [np + nl..<np + nl + npt]) else None))
   = map word_of_nat [0..<np + nl + npt]"
proof -
  have "[0..<np + nl + npt] = [0..<np + nl] @ [np + nl..<np + nl + npt]"
    by (rule upt_add_eq_append) simp
  moreover have "[0..<np + nl] = [0..<np] @ [np..<np + nl]"
    by (rule upt_add_eq_append) simp
  ultimately show ?thesis
    by (simp add: allBatchIds_def batchIdsOf_def)
qed

lemma distinct_word16_upt:
  assumes "n \<le> 65536"
  shows "distinct (map (word_of_nat :: nat \<Rightarrow> 16 word) [0..<n])"
proof -
  have "inj_on (word_of_nat :: nat \<Rightarrow> 16 word) (set [0..<n])"
  proof (rule inj_onI)
    fix x y assume "x \<in> set [0..<n]" "y \<in> set [0..<n]"
      and eq: "(word_of_nat x :: 16 word) = word_of_nat y"
    then have "x < 2 ^ 16" "y < 2 ^ 16" using assms by auto
    then have "take_bit 16 x = x" "take_bit 16 y = y" by (simp_all add: take_bit_nat_eq_self)
    with eq show "x = y" by (simp add: word_of_nat_eq_iff)
  qed
  then show ?thesis by (simp add: distinct_map)
qed

lemma featureTableWithoutKeys_ids:
  "POLYGON_BATCH_IDS featureTableWithoutKeys = None"
  "POLYLINE_BATCH_IDS featureTableWithoutKeys = None"
  "POINT_BATCH_IDS featureTableWithoutKeys = None"
  by (simp_all add: featureTableWithoutKeys_def)

text \<open>
  C3 (as amended). When no primitive type supplies an explicit batch-id array, the ids
  are synthesized from a counter that starts at 0 (no id value is present on this path,
  so the maximum is the initial -1) and are assigned in sequence to the polygons, then
  the polylines, then the points, each stored in a 16-bit array: polygon \<open>k\<close> gets
  \<open>k mod 65536\<close>, and so on. The synthesized ids are unique across the three types
  whenever the tile has at most 65536 primitives. For polygons = 2, polylines = 1,
  points = 0 the polygons get 0 and 1 and the polyline gets 2.
\<close>

theorem synthesized_batch_ids:
  assumes "POLYGON_BATCH_IDS featureTableJson = None"
    and "POLYLINE_BATCH_IDS featureTableJson = None"
    and "POINT_BATCH_IDS featureTableJson = None"
  shows "resolveBatchIds buffer byteOffset featureTableJson numberOfPolygons numberOfPolylines numberOfPoints =
           Inr (if 0 < numberOfPolygons then Some (map word_of_nat [0..<numberOfPolygons]) else None,
                if 0 < numberOfPolylines
                then Some (map word_of_nat [numberOfPolygons..<numberOfPolygons + numberOfPolylines]) else None,
                if 0 < numberOfPoints
                then Some (map word_of_nat [numberOfPolygons + numberOfPolylines..<
                                            numberOfPolygons + numberOfPolylines + numberOfPoints]) else None)
         \<and> (numberOfPolygons + numberOfPolylines + numberOfPoints \<le> 65536 \<longrightarrow>
              distinct (allBatchIds (resolveBatchIds buffer byteOffset featureTableJson
                                       numberOfPolygons numberOfPolylines numberOfPoints)))"
proof -
  have r: "resolveBatchIds buffer byteOffset featureTableJson numberOfPolygons numberOfPolylines numberOfPoints =
           Inr (synthesizeBatchIds numberOfPolygons numberOfPolylines numberOfPoints None None None)"
    using assms by (simp add: resolveBatchIds_def explicitBatchIds_absent)
  show ?thesis
    unfolding r synthesizeBatchIds_none allBatchIds_synthesized
    by (simp add: distinct_word16_upt)
qed

theorem synthesized_batch_ids_witness:
  "resolveBatchIds [] 0 featureTableWithoutKeys 2 1 0 = Inr (Some [0, 1], Some [2], None)
   \<and> distinct (allBatchIds (resolveBatchIds [] 0 featureTableWithoutKeys 2 1 0))"
proof -
  have u: "[0..<2] = [0, Suc 0]" "[2..<3] = [2]" by (simp_all add: upt_rec)
  show ?thesis
    using synthesized_batch_ids [OF featureTableWithoutKeys_ids, of "[]" 0 2 1 0]
    by (simp add: u allBatchIds_def batchIdsOf_def)
qed

text \<open>
  The claim as stated fails: a tile of 65537 polygons with no explicit ids gives its
  first and its last polygon the same id 0.
\<close>

theorem synthesized_batch_ids_collide:
  "POLYGON_BATCH_IDS featureTableWithoutKeys = None
   \<and> POLYLINE_BATCH_IDS featureTableWithoutKeys = None
   \<and> POINT_BATCH_IDS featureTableWithoutKeys = None
   \<and> \<not> distinct (allBatchIds (resolveBatchIds [] 0 featureTableWithoutKeys 65537 0 0))"
proof -
  have r: "resolveBatchIds [] 0 featureTableWithoutKeys 65537 0 0 =
           Inr (synthesizeBatchIds 65537 0 0 None None None)"
    by (simp add: resolveBatchIds_def explicitBatchIds_absent featureTableWithoutKeys_ids)
  let ?ids = "map (word_of_nat :: nat \<Rightarrow> 16 word) [0..<65537]"
  have a: "allBatchIds (resolveBatchIds [] 0 featureTableWithoutKeys 65537 0 0) = ?ids"
    unfolding r synthesizeBatchIds_none by (simp add: allBatchIds_def batchIdsOf_def)
  have "?ids ! 0 = ?ids ! 65536" by (simp del: upt_Suc)
  moreover have "(0::nat) < length ?ids" "(65536::nat) < length ?ids" by simp_all
  ultimately have "\<not> distinct ?ids"
    unfolding distinct_conv_nth by (metis zero_neq_numeral)
  with a show ?thesis by (simp add: featureTableWithoutKeys_ids)
qed

text \<open>
  C4 (as amended). When at least one primitive type that has primitives supplies an
  explicit batch-id array, nothing is synthesized: each type is given exactly the array
  it supplied, and a type that omits its array is left without ids.
\<close>

theorem no_partial_synthesis:
  assumes supplied:
    "(0 < numberOfPolygons \<and> POLYGON_BATCH_IDS featureTableJson \<noteq> None)
     \<or> (0 < numberOfPolylines \<and> POLYLINE_BATCH_IDS featureTableJson \<noteq> None)
     \<or> (0 < numberOfPoints \<and> POINT_BATCH_IDS featureTableJson \<noteq> None)"
    and returns:
    "resolveBatchIds buffer byteOffset featureTableJson numberOfPolygons numberOfPolylines numberOfPoints =
       Inr (polygonBatchIds, polylineBatchIds, pointBatchIds)"
  shows "explicitBatchIds buffer byteOffset numberOfPolygons (POLYGON_BATCH_IDS featureTableJson) = Inr polygonBatchIds
       \<and> explicitBatchIds buffer byteOffset numberOfPolylines (POLYLINE_BATCH_IDS featureTableJson) = Inr polylineBatchIds
       \<and> explicitBatchIds buffer byteOffset numberOfPoints (POINT_BATCH_IDS featureTableJson) = Inr pointBatchIds
       \<and> (POLYGON_BATCH_IDS featureTableJson = None \<longrightarrow> polygonBatchIds = None)
       \<and> (POLYLINE_BATCH_IDS featureTableJson = None \<longrightarrow> polylineBatchIds = None)
       \<and> (POINT_BATCH_IDS featureTableJson = None \<longrightarrow> pointBatchIds = None)"
proof -
  obtain a b c where
    a: "explicitBatchIds buffer byteOffset numberOfPolygons (POLYGON_BATCH_IDS featureTableJson) = Inr a" and
    b: "explicitBatchIds buffer byteOffset numberOfPolylines (POLYLINE_BATCH_IDS featureTableJson) = Inr b" and
    c: "explicitBatchIds buffer byteOffset numberOfPoints (POINT_BATCH_IDS featureTableJson) = Inr c" and
    r: "synthesizeBatchIds numberOfPolygons numberOfPolylines numberOfPoints a b c =
          (polygonBatchIds, polylineBatchIds, pointBatchIds)"
    using returns by (auto simp: resolveBatchIds_def split: sum.splits)
  from supplied a b c have "defined a \<or> defined b \<or> defined c"
    by (blast dest: explicitBatchIds_defined)
  with r have eq: "polygonBatchIds = a" "polylineBatchIds = b" "pointBatchIds = c"
    by (simp_all add: synthesizeBatchIds_explicit)
  show ?thesis
    using a b c unfolding eq by (auto simp: explicitBatchIds_absent)
qed

lemma resolveBatchIds_polygon_ids_example:
  "resolveBatchIds [5, 0, 7, 0] 0 featureTableWithPolygonIds 2 1 0 = Inr (Some [5, 7], None, None)"
  by (simp add: resolveBatchIds_def explicitBatchIds_def featureTableWithPolygonIds_def
      featureTableWithoutKeys_def defined_def newUint16Array_def typedArray_def upt_rec
      synthesizeBatchIds_def)

theorem no_partial_synthesis_witness:
  "(0 < (2::nat) \<and> POLYGON_BATCH_IDS featureTableWithPolygonIds \<noteq> None)
   \<and> POLYLINE_BATCH_IDS featureTableWithPolygonIds = None
   \<and> POINT_BATCH_IDS featureTableWithPolygonIds = None
   \<and> resolveBatchIds [5, 0, 7, 0] 0 featureTableWithPolygonIds 2 1 0 = Inr (Some [5, 7], None, None)
   \<and> explicitBatchIds [5, 0, 7, 0] 0 2 (POLYGON_BATCH_IDS featureTableWithPolygonIds) = Inr (Some [5, 7])
   \<and> explicitBatchIds [5, 0, 7, 0] 0 1 (POLYLINE_BATCH_IDS featureTableWithPolygonIds) = Inr None"
proof -
  have k: "(0 < (2::nat) \<and> POLYGON_BATCH_IDS featureTableWithPolygonIds \<noteq> None)
     \<or> (0 < (1::nat) \<and> POLYLINE_BATCH_IDS featureTableWithPolygonIds \<noteq> None)
     \<or> (0 < (0::nat) \<and> POINT_BATCH_IDS featureTableWithPolygonIds \<noteq> None)"
    by (simp add: featureTableWithPolygonIds_def)
  show ?thesis
    using no_partial_synthesis [OF k resolveBatchIds_polygon_ids_example]
      resolveBatchIds_polygon_ids_example
    by (simp add: featureTableWithPolygonIds_def featureTableWithoutKeys_def)
qed

text \<open>
  The claim as stated fails: the feature table below supplies POLYGON_BATCH_IDS, the
  tile has no polygon and one polyline without ids, and the polyline is given the
  synthesized id 0.
\<close>

theorem partial_synthesis_without_polygons:
  "POLYGON_BATCH_IDS featureTableWithPolygonIds \<noteq> None
   \<and> POLYLINE_BATCH_IDS featureTableWithPolygonIds = None
   \<and> resolveBatchIds [] 0 featureTableWithPolygonIds 0 1 0 = Inr (None, Some [0], None)"
  by (simp add: resolveBatchIds_def explicitBatchIds_def featureTableWithPolygonIds_def
      featureTableWithoutKeys_def defined_def synthesizeBatchIds_def assignIds.simps)

section \<open>Header validation and the empty tile\<close>

text \<open>
  C1. For every input buffer, initialize throws when the magic is not "vctr", and when
  the magic is "vctr" and the version field is not 1; the spec's FormatError is the
  \<^verbatim>\<open>DeveloperError\<close> of the source, and the version check is the one between the
  debug pragmas of lines 226 to 231. In both cases nothing has been assigned to the
  content: it is returned as it was given. When the magic is "vctr" and the version is
  1, the checks pass and the call goes on with the rest of the decoding.
\<close>

theorem header_validation:
  "(getMagic arrayBuffer (defaultValue byteOffset 0) \<noteq> ''vctr'' \<longrightarrow>
      initialize parseFeatureTable parseBatchTable content arrayBuffer byteOffset =
        (content, Threw (DeveloperError (InvalidMagic (getMagic arrayBuffer (defaultValue byteOffset 0))))))
   \<and> (getMagic arrayBuffer (defaultValue byteOffset 0) = ''vctr''
        \<and> getUint32 arrayBuffer (defaultValue byteOffset 0 + 4) = Inr version \<and> version \<noteq> 1 \<longrightarrow>
      initialize parseFeatureTable parseBatchTable content arrayBuffer byteOffset =
        (content, Threw (DeveloperError (UnsupportedVersion version))))
   \<and> (getMagic arrayBuffer (defaultValue byteOffset 0) = ''vctr''
        \<and> getUint32 arrayBuffer (defaultValue byteOffset 0 + 4) = Inr 1 \<longrightarrow>
      initialize parseFeatureTable parseBatchTable content arrayBuffer byteOffset =
        decodeTile parseFeatureTable parseBatchTable content arrayBuffer (defaultValue byteOffset 0 + 8))"
  by (simp add: initialize_def Let_def sizeOfUint32_def add.assoc)

lemma magic_examples:
  "getMagic wrongMagicTile 0 = ''xxxx''" "getMagic version2Tile 0 = ''vctr''"
  "getMagic emptyTile 0 = ''vctr''"
  by (simp_all add: getMagic_def wrongMagicTile_def version2Tile_def emptyTile_def char_of_def bit_0)

lemma version_examples:
  "getUint32 version2Tile 4 = Inr 2" "getUint32 emptyTile 4 = Inr 1" "getUint32 emptyTile 8 = Inr 0"
  by (simp_all add: getUint32_def version2Tile_def emptyTile_def)

theorem header_validation_witness:
  "initialize noJson noJson (newContent exampleTile :: unit content) wrongMagicTile None =
     (newContent exampleTile, Threw (DeveloperError (InvalidMagic ''xxxx'')))
   \<and> initialize noJson noJson (newContent exampleTile :: unit content) version2Tile None =
     (newContent exampleTile, Threw (DeveloperError (UnsupportedVersion 2)))
   \<and> initialize noJson noJson (newContent exampleTile :: unit content) emptyTile None =
     decodeTile noJson noJson (newContent exampleTile) emptyTile 8"
  using header_validation [of wrongMagicTile None noJson noJson "newContent exampleTile :: unit content" 2]
    header_validation [of version2Tile None noJson noJson "newContent exampleTile :: unit content" 2]
    header_validation [of emptyTile None noJson noJson "newContent exampleTile :: unit content" 2]
  by (simp add: defaultValue_def magic_examples version_examples)

text \<open>
  C2. For every tile whose byteLength field is 0, the constructor returns right after the
  header: the ready promise is resolved, featuresLength is 0, and neither primitive sets
  nor a batch table nor collections nor features have been allocated.
\<close>

theorem empty_tile:
  assumes "getMagic arrayBuffer (defaultValue byteOffset 0) = ''vctr''"
    and "getUint32 arrayBuffer (defaultValue byteOffset 0 + 4) = Inr 1"
    and "getUint32 arrayBuffer (defaultValue byteOffset 0 + 8) = Inr 0"
  shows "Vector3DTileContent parseFeatureTable parseBatchTable tile' arrayBuffer byteOffset =
           ((newContent tile')\<lparr>c_readyPromise := Resolved\<rparr>, Returned)
       \<and> (let content = fst (Vector3DTileContent parseFeatureTable parseBatchTable tile' arrayBuffer byteOffset)
          in readyPromise content = Resolved \<and> featuresLength content = 0
             \<and> c_polygons content = None \<and> c_polylines content = None \<and> batchTable content = None
             \<and> c_billboardCollection content = None \<and> c_labelCollection content = None
             \<and> c_polylineCollection content = None \<and> c_features content = None)"
proof -
  have "Vector3DTileContent parseFeatureTable parseBatchTable tile' arrayBuffer byteOffset =
           ((newContent tile')\<lparr>c_readyPromise := Resolved\<rparr>, Returned)"
    using assms
    by (simp add: Vector3DTileContent_def initialize_def decodeTile_def Let_def sizeOfUint32_def add.assoc)
  then show ?thesis
    by (simp add: readyPromise_def featuresLength_def batchTable_def newContent_def)
qed

theorem empty_tile_witness:
  "Vector3DTileContent noJson noJson exampleTile emptyTile None =
     ((newContent exampleTile :: unit content)\<lparr>c_readyPromise := Resolved\<rparr>, Returned)
   \<and> featuresLength (fst (Vector3DTileContent noJson noJson exampleTile emptyTile None :: unit content \<times> outcome)) = 0"
  using empty_tile [where arrayBuffer = emptyTile and byteOffset = None and parseFeatureTable = noJson
      and parseBatchTable = "noJson :: 8 word list \<Rightarrow> nat \<Rightarrow> nat \<Rightarrow> error + unit" and tile' = exampleTile]
  by (simp add: defaultValue_def magic_examples version_examples featuresLength_def newContent_def)

section \<open>Zig-zag delta round trip\<close>

lemma uint16_of_int: "0 \<le> x \<Longrightarrow> x < 65536 \<Longrightarrow> uint (word_of_int x :: 16 word) = x"
  by (simp add: uint_word_of_int take_bit_eq_mod)

lemma drop_bit_15_nonneg: "0 \<le> d \<Longrightarrow> d \<le> 32767 \<Longrightarrow> drop_bit 15 (d::int) = 0"
  by (simp add: drop_bit_eq_div)

lemma drop_bit_15_neg: "d < 0 \<Longrightarrow> - 32768 \<le> d \<Longrightarrow> drop_bit 15 (d::int) = - 1"
proof -
  assume a: "d < 0" "- 32768 \<le> d"
  have "d div 32768 = - 1"
    by (rule int_div_pos_eq [of d 32768 "- 1" "d + 32768"]) (use a in simp_all)
  then show ?thesis by (simp add: drop_bit_eq_div)
qed

lemma drop_bit_1_even: "drop_bit 1 (2 * d :: int) = d"
  by (simp add: drop_bit_eq_div)

lemma drop_bit_1_odd: "drop_bit 1 (- 2 * d - 1 :: int) = - d - 1"
proof -
  have "(- 2 * d - 1) div 2 = - d - 1"
    by (rule int_div_pos_eq [of _ 2 _ 1]) simp_all
  then show ?thesis by (simp add: drop_bit_eq_div)
qed

lemma and_1_even: "(2 * d :: int) AND 1 = 0"
  by (simp add: and_one_eq)

lemma and_1_odd: "(- 2 * d - 1 :: int) AND 1 = 1"
proof -
  have "(- 2 * d - 1) mod 2 = 1"
    by (rule int_mod_pos_eq [of _ 2 "- d - 1"]) simp_all
  then show ?thesis by (simp only: and_one_eq)
qed

lemma xor_minus_1: "(x :: int) XOR - 1 = - x - 1"
proof -
  have "x XOR - 1 = NOT x" by (rule bit.xor_one_right)
  also have "\<dots> = - x - 1" by (rule not_eq_complement)
  finally show ?thesis .
qed

lemma push_bit_1: "push_bit 1 (d :: int) = 2 * d"
  by (simp add: push_bit_eq_mult)

lemma zigZag_inverse:
  assumes "- 32768 \<le> d" "d \<le> 32767"
  shows "zigZagDecode (zigZagEncode d) = d"
proof (cases "0 \<le> d")
  case True
  have e: "zigZagEncode d = word_of_int (2 * d)"
    unfolding zigZagEncode_def push_bit_1 drop_bit_15_nonneg [OF True assms(2)] by simp
  have u: "uint (word_of_int (2 * d) :: 16 word) = 2 * d"
    by (rule uint16_of_int) (use True assms in simp_all)
  show ?thesis
    unfolding zigZagDecode_def e u drop_bit_1_even and_1_even by simp
next
  case False
  then have neg: "d < 0" by simp
  have e: "zigZagEncode d = word_of_int (- 2 * d - 1)"
    unfolding zigZagEncode_def push_bit_1 drop_bit_15_neg [OF neg assms(1)] xor_minus_1 by simp
  have u: "uint (word_of_int (- 2 * d - 1) :: 16 word) = - 2 * d - 1"
    by (rule uint16_of_int) (use neg assms in simp_all)
  show ?thesis
    unfolding zigZagDecode_def e u drop_bit_1_odd and_1_odd xor_minus_1 by simp
qed

lemma runningSum_differences:
  assumes "\<forall>x \<in> set xs. x \<le> 32767" and "0 \<le> previous" "previous \<le> 32767"
  shows "runningSum previous (differences previous xs) = xs"
  using assms
proof (induction xs arbitrary: previous)
  case Nil
  then show ?case by simp
next
  case (Cons x xs)
  from Cons.prems have "x \<le> 32767" by simp
  then have ux: "uint x \<le> 32767" by (simp add: word_le_def)
  have ux0: "0 \<le> uint x" by simp
  have d: "zigZagDecode (zigZagEncode (uint x - previous)) = uint x - previous"
    by (rule zigZag_inverse) (use ux ux0 Cons.prems in linarith)+
  have "runningSum (uint x) (differences (uint x) xs) = xs"
    by (rule Cons.IH) (use Cons.prems ux in simp_all)
  then show ?case by (simp add: d Let_def)
qed

text \<open>
  C5. Zig-zag delta decoding inverts delta-then-zig-zag encoding: for arrays of any
  length (also empty) of absolute quantized coordinates, which lie on the grid 0..32767,
  encoding the successive differences and decoding the three arrays, each with its own
  running sum, gives back the original arrays exactly.
\<close>

theorem zigZagDelta_round_trip:
  assumes "\<forall>x \<in> set us \<union> set vs \<union> set heights. x \<le> word_of_nat maxShort"
  shows "(case zigZagDeltaEncode us vs heights of
            (uBuffer, vBuffer, heightBuffer) \<Rightarrow> zigZagDeltaDecode uBuffer vBuffer heightBuffer)
         = (us, vs, heights)"
  using assms
  by (simp add: zigZagDeltaEncode_def zigZagDeltaDecode_def maxShort_def runningSum_differences)

lemma zigZagDeltaEncode_example:
  "zigZagDeltaEncode [5, 3] [0, 32767] [] = ([10, 3], [0, 65534], [])"
  by (simp add: zigZagDeltaEncode_def zigZagEncode_def)

theorem zigZagDelta_round_trip_witness:
  "(5 :: 16 word) \<le> word_of_nat maxShort \<and> (3 :: 16 word) \<le> word_of_nat maxShort
   \<and> (0 :: 16 word) \<le> word_of_nat maxShort \<and> (32767 :: 16 word) \<le> word_of_nat maxShort
   \<and> zigZagDeltaEncode [5, 3] [0, 32767] [] = ([10, 3], [0, 65534], [])
   \<and> zigZagDeltaDecode [10, 3] [0, 65534] [] = ([5, 3], [0, 32767], [])"
proof -
  have h: "\<forall>x \<in> set [5, 3] \<union> set [0, 32767] \<union> set []. x \<le> (word_of_nat maxShort :: 16 word)"
    by (simp add: maxShort_def)
  show ?thesis
    using zigZagDelta_round_trip [OF h] h by (simp add: zigZagDeltaEncode_example)
qed

section \<open>Polyline widths\<close>

lemma defaultWidths_length: "length (defaultWidths i n ws) = length ws"
  by (induction i n ws rule: defaultWidths.induct) (subst defaultWidths.simps, simp)

lemma defaultWidths_nth:
  "k < length ws \<Longrightarrow> length ws = n \<Longrightarrow>
   defaultWidths i n ws ! k = (if k < i then ws ! k else Some 2)"
proof (induction i n ws rule: defaultWidths.induct)
  case (1 i n ws)
  show ?case
  proof (cases "i < n")
    case True
    have "defaultWidths i n ws ! k = defaultWidths (i + 1) n (ws[i := Some 2]) ! k"
      using True by (subst defaultWidths.simps) simp
    also have "\<dots> = (if k < i + 1 then (ws[i := Some 2]) ! k else Some 2)"
      using 1 True by simp
    also have "\<dots> = (if k < i then ws ! k else Some 2)"
      using True 1(2,3) by (auto simp: nth_list_update less_Suc_eq)
    finally show ?thesis .
  next
    case False
    with 1 show ?thesis by (subst defaultWidths.simps) simp
  qed
qed

lemma defaultWidths_replicate: "defaultWidths 0 n (replicate n None) = replicate n (Some 2)"
  by (rule nth_equalityI) (simp_all add: defaultWidths_length defaultWidths_nth)

lemma polylineWidths_absent:
  "POLYLINE_WIDTHS featureTableJson = None \<Longrightarrow>
   polylineWidths arrayBuffer off featureTableJson n = Inr (Array (replicate n (Some 2)))"
  by (simp add: polylineWidths_def defined_def defaultWidths_replicate)

text \<open>
  C6. For a tile whose feature table omits POLYLINE_WIDTHS, the absence is not an error:
  the width array is a plain array of numberOfPolylines entries, each 2.0, and this is
  the \<open>widths\<close> the polyline builder is given.
\<close>

theorem default_polyline_widths:
  assumes "POLYLINE_WIDTHS (s_featureTableJson s) = None"
    and "createPolylines arrayBuffer byteOffset s numberOfPolylines minHeight maxHeight center' rectangle'
           polylineBatchIds = Inr (polylines, byteOffset')"
  shows "polylineWidths arrayBuffer (s_featureTableBinaryByteOffset s) (s_featureTableJson s) numberOfPolylines
           = Inr (Array (replicate numberOfPolylines (Some 2)))
       \<and> pl_widths polylines = Array (replicate numberOfPolylines (Some 2))"
  using assms
  by (auto simp: createPolylines_def bindE_def polylineWidths_absent Let_def split: sum.splits)

lemma createPolylines_example:
  "createPolylines polylineBuffer 12 polylineSections 3 None None (0, 0, 0) (0, 0, 1, 1) None =
     Inr (\<lparr>minimumHeight = None, maximumHeight = None, center = (0, 0, 0), rectangle = (0, 0, 1, 1),
           pl_positions = [9, 8], pl_widths = Array [Some 2, Some 2, Some 2],
           pl_counts = [1, 2, 1], pl_batchIds = None\<rparr>, 16)"
  by (simp add: createPolylines_def bindE_def polylineSections_def polylineBuffer_def
      featureTableWithoutKeys_def newUint16Array_def newUint32Array_def typedArray_def
      sizeOfUint16_def byteOffsetOf_def polylineWidths_absent upt_rec numeral_3_eq_3)

theorem default_polyline_widths_witness:
  "POLYLINE_WIDTHS (s_featureTableJson polylineSections) = None
   \<and> createPolylines polylineBuffer 12 polylineSections 3 None None (0, 0, 0) (0, 0, 1, 1) None =
     Inr (\<lparr>minimumHeight = None, maximumHeight = None, center = (0, 0, 0), rectangle = (0, 0, 1, 1),
           pl_positions = [9, 8], pl_widths = Array [Some 2, Some 2, Some 2],
           pl_counts = [1, 2, 1], pl_batchIds = None\<rparr>, 16)
   \<and> polylineWidths polylineBuffer 0 (s_featureTableJson polylineSections) 3
       = Inr (Array [Some 2, Some 2, Some 2])"
proof -
  have k: "POLYLINE_WIDTHS (s_featureTableJson polylineSections) = None"
    by (simp add: polylineSections_def featureTableWithoutKeys_def)
  have o: "s_featureTableBinaryByteOffset polylineSections = 0"
    by (simp add: polylineSections_def)
  show ?thesis
    using default_polyline_widths [OF k createPolylines_example] k createPolylines_example
    by (simp add: o numeral_3_eq_3)
qed

section \<open>Points and pointsLength\<close>

lemma pointsLoop_returned:
  "pointsLoop i n ids u v h c = (c', Returned) \<Longrightarrow>
   length (fst c') = length (fst c) + (n - i)
   \<and> length (fst (snd c')) = length (fst (snd c)) + (n - i)
   \<and> length (snd (snd c')) = length (snd (snd c)) + (n - i)"
proof (induction i n ids u v h c rule: pointsLoop.induct)
  case (1 i n ids u v h c)
  show ?case
  proof (cases "i < n")
    case False
    with 1(2) show ?thesis by (subst (asm) pointsLoop.simps) auto
  next
    case True
    from 1(2) True obtain xs where xs: "ids = Some xs"
      by (subst (asm) pointsLoop.simps) (auto split: option.splits)
    obtain bs ls ps where c: "c = (bs, ls, ps)" by (cases c) auto
    let ?position = "(element u i, element v i, element h i)"
    let ?c = "(bs @ [\<lparr>b_position = ?position, b_verticalOrigin = BOTTOM, b_batchIndex = element xs i\<rparr>],
               ls @ [\<lparr>l_text = '' '', l_position = ?position, l_verticalOrigin = BOTTOM,
                       l_batchIndex = element xs i\<rparr>],
               ps @ [\<lparr>p_positions = [?position, ?position]\<rparr>])"
    have step: "pointsLoop (i + 1) n ids u v h ?c = (c', Returned)"
      using 1(2) True xs c by (subst (asm) pointsLoop.simps) (simp add: Let_def)
    have "length (fst c') = length (fst ?c) + (n - (i + 1))
      \<and> length (fst (snd c')) = length (fst (snd ?c)) + (n - (i + 1))
      \<and> length (snd (snd c')) = length (snd (snd ?c)) + (n - (i + 1))"
      by (rule 1(1) [OF True xs refl refl refl refl refl refl refl refl c [symmetric] refl step])
    with True c show ?thesis by auto
  qed
qed

lemma createPoints_returned:
  assumes "createPoints content arrayBuffer byteOffset len n ids = (content', Returned)"
  shows "map_option length (c_billboardCollection content') = Some n
       \<and> map_option length (c_labelCollection content') = Some n
       \<and> map_option length (c_polylineCollection content') = Some n"
proof -
  from assms obtain u v h c' where
    loop: "pointsLoop 0 n ids u v h ([], [], []) = (c', Returned)" and
    bs: "c_billboardCollection content' = Some (fst c')" and
    ls: "c_labelCollection content' = Some (fst (snd c'))" and
    ps: "c_polylineCollection content' = Some (snd (snd c'))"
    by (auto simp: createPoints_def Let_def split: sum.splits prod.splits)
  from pointsLoop_returned [OF loop] bs ls ps show ?thesis by simp
qed

lemma createPrimitives_returned:
  assumes "createPrimitives content arrayBuffer s np nl n = (content', Returned)" and "0 < n"
  shows "map_option length (c_billboardCollection content') = Some n
       \<and> map_option length (c_labelCollection content') = Some n
       \<and> map_option length (c_polylineCollection content') = Some n"
proof -
  from assms obtain c off len ids where
    "createPoints c arrayBuffer off len n ids = (content', Returned)"
    unfolding createPrimitives_def Let_def
    by (auto split: sum.splits prod.splits if_splits)
  then show ?thesis by (rule createPoints_returned)
qed

text \<open>
  C10. pointsLength is 0 for every content, also for one constructed from a non-empty
  tile that declares POINTS_LENGTH > 0: there the billboard, label and polyline
  collections each hold POINTS_LENGTH elements, and pointsLength is still 0.
\<close>

theorem pointsLength_ignores_points:
  assumes constructed:
      "Vector3DTileContent parseFeatureTable parseBatchTable tile' arrayBuffer byteOffset = (content, Returned)"
    and nonempty: "getUint32 arrayBuffer (defaultValue byteOffset 0 + 8) = Inr byteLength" "byteLength \<noteq> 0"
    and sections: "readSections parseFeatureTable parseBatchTable arrayBuffer (defaultValue byteOffset 0 + 12) = Inr s"
    and points: "POINTS_LENGTH (s_featureTableJson s) = Some numberOfPoints" "0 < numberOfPoints"
  shows "pointsLength content = 0
       \<and> map_option length (c_billboardCollection content) = Some numberOfPoints
       \<and> map_option length (c_labelCollection content) = Some numberOfPoints
       \<and> map_option length (c_polylineCollection content) = Some numberOfPoints"
proof -
  from constructed have
    "decodeTile parseFeatureTable parseBatchTable (newContent tile') arrayBuffer (defaultValue byteOffset 0 + 8)
       = (content, Returned)"
    by (auto simp: Vector3DTileContent_def initialize_def Let_def sizeOfUint32_def add.assoc
        split: if_splits sum.splits)
  with nonempty sections points obtain c np nl where
    "createPrimitives c arrayBuffer s np nl numberOfPoints = (content, Returned)"
    by (auto simp: decodeTile_def Let_def sizeOfUint32_def add.assoc defaultValue_def split: if_splits)
  from createPrimitives_returned [OF this points(2)] show ?thesis
    by (simp add: pointsLength_def)
qed

lemma getUint32_twoPoints:
  "getUint32 twoPointsTile 4 = Inr 1" "getUint32 twoPointsTile 8 = Inr 58"
  "getUint32 twoPointsTile 12 = Inr 2" "getUint32 twoPointsTile 16 = Inr 0"
  "getUint32 twoPointsTile 20 = Inr 0" "getUint32 twoPointsTile 24 = Inr 0"
  "getUint32 twoPointsTile 28 = Inr 0" "getUint32 twoPointsTile 32 = Inr 0"
  "getUint32 twoPointsTile 36 = Inr 0" "getUint32 twoPointsTile 40 = Inr 12"
  by (simp_all add: getUint32_def twoPointsTile_def)

lemma readSections_twoPoints:
  "readSections twoPointsJson noJson twoPointsTile 12 = Inr twoPointsSections"
  by (simp add: readSections_def bindE_def getUint32_twoPoints sizeOfUint32_def Let_def
      twoPointsJson_def twoPointsSections_def newUint8Array_def typedArray_def)
  (simp add: twoPointsTile_def)

lemma zigZagDecode_examples:
  "zigZagDecode 10 = 5" "zigZagDecode 3 = - 2" "zigZagDecode 0 = 0" "zigZagDecode 2 = 1"
  "zigZagDecode 4 = 2" "zigZagDecode 1 = - 1"
  by (simp_all add: zigZagDecode_def drop_bit_eq_div and_one_eq)

lemma pointPositions_twoPoints:
  "newUint16Array twoPointsTile 46 6 = Inr [10, 3, 0, 2, 4, 1]"
  by (simp add: newUint16Array_def typedArray_def twoPointsTile_def upt_rec)

lemma resolveBatchIds_twoPoints:
  "resolveBatchIds twoPointsTile 46 (featureTableWithoutKeys\<lparr>POINTS_LENGTH := Some 2\<rparr>) 0 0 2
     = Inr (None, None, Some [0, 1])"
proof -
  have u: "[0..<2] = [0, Suc 0]" by (simp add: upt_rec)
  show ?thesis
    by (simp add: resolveBatchIds_def explicitBatchIds_absent featureTableWithoutKeys_def
        synthesizeBatchIds_none u)
qed

lemma pointsLoop_twoPoints:
  "pointsLoop 0 2 (Some [0, 1]) [5, 3] [0, 1] [2, 1] ([], [], []) =
     (([\<lparr>b_position = (Some 5, Some 0, Some 2), b_verticalOrigin = BOTTOM, b_batchIndex = Some 0\<rparr>,
        \<lparr>b_position = (Some 3, Some 1, Some 1), b_verticalOrigin = BOTTOM, b_batchIndex = Some 1\<rparr>],
       [\<lparr>l_text = '' '', l_position = (Some 5, Some 0, Some 2), l_verticalOrigin = BOTTOM,
          l_batchIndex = Some 0\<rparr>,
        \<lparr>l_text = '' '', l_position = (Some 3, Some 1, Some 1), l_verticalOrigin = BOTTOM,
          l_batchIndex = Some 1\<rparr>],
       [\<lparr>p_positions = [(Some 5, Some 0, Some 2), (Some 5, Some 0, Some 2)]\<rparr>,
        \<lparr>p_positions = [(Some 3, Some 1, Some 1), (Some 3, Some 1, Some 1)]\<rparr>]), Returned)"
  by (simp add: pointsLoop.simps element_def Let_def)

lemma zigZagDeltaDecode_twoPoints:
  "zigZagDeltaDecode [10, 3] [0, 2] [4, 1] = ([5, 3], [0, 1], [2, 1])"
  by (simp add: zigZagDeltaDecode_def zigZagDecode_examples)

lemma createPrimitives_twoPoints:
  "createPrimitives
     ((newContent exampleTile)\<lparr>c_batchTable :=
        Some \<lparr>bt_featuresLength = 2, bt_batchTableJson = None, bt_batchTableBinary = None\<rparr>\<rparr>)
     twoPointsTile twoPointsSections 0 0 2 = (twoPointsContent, Returned)"
  by (simp add: createPrimitives_def twoPointsSections_def resolveBatchIds_twoPoints Let_def
      createPoints_def sizeOfUint16_def pointPositions_twoPoints subarray_def
      zigZagDeltaDecode_twoPoints pointsLoop_twoPoints twoPointsContent_def newContent_def)

lemma magic_twoPoints: "getMagic twoPointsTile 0 = ''vctr''"
  by (simp add: getMagic_def twoPointsTile_def char_of_def bit_0)

lemma counts_twoPoints:
  "POLYGONS_LENGTH (s_featureTableJson twoPointsSections) = None"
  "POLYLINES_LENGTH (s_featureTableJson twoPointsSections) = None"
  "POINTS_LENGTH (s_featureTableJson twoPointsSections) = Some 2"
  "s_batchTableJson twoPointsSections = None" "s_batchTableBinary twoPointsSections = None"
  by (simp_all add: twoPointsSections_def featureTableWithoutKeys_def)

lemma constructed_twoPoints:
  "Vector3DTileContent twoPointsJson noJson exampleTile twoPointsTile None = (twoPointsContent, Returned)"
  by (simp add: Vector3DTileContent_def initialize_def decodeTile_def Let_def defaultValue_def
      sizeOfUint32_def magic_twoPoints getUint32_twoPoints readSections_twoPoints
      counts_twoPoints createPrimitives_twoPoints flip: numeral_2_eq_2)

theorem pointsLength_ignores_points_witness:
  "Vector3DTileContent twoPointsJson noJson exampleTile twoPointsTile None = (twoPointsContent, Returned)
   \<and> getUint32 twoPointsTile 8 = Inr 58
   \<and> readSections twoPointsJson noJson twoPointsTile 12 = Inr twoPointsSections
   \<and> POINTS_LENGTH (s_featureTableJson twoPointsSections) = Some 2
   \<and> pointsLength twoPointsContent = 0
   \<and> map_option length (c_billboardCollection twoPointsContent) = Some 2
   \<and> map_option length (c_labelCollection twoPointsContent) = Some 2
   \<and> map_option length (c_polylineCollection twoPointsContent) = Some 2"
proof -
  have a: "getUint32 twoPointsTile (defaultValue None 0 + 8) = Inr 58"
    by (simp add: defaultValue_def getUint32_twoPoints)
  have b: "readSections twoPointsJson noJson twoPointsTile (defaultValue None 0 + 12) = Inr twoPointsSections"
    by (simp add: defaultValue_def readSections_twoPoints)
  have "pointsLength twoPointsContent = 0
      \<and> map_option length (c_billboardCollection twoPointsContent) = Some 2
      \<and> map_option length (c_labelCollection twoPointsContent) = Some 2
      \<and> map_option length (c_polylineCollection twoPointsContent) = Some 2"
    by (rule pointsLength_ignores_points [OF constructed_twoPoints a _ b counts_twoPoints(3)]) simp_all
  then show ?thesis
    using constructed_twoPoints getUint32_twoPoints(2) readSections_twoPoints counts_twoPoints(3)
    by simp
qed

section \<open>Clearing the style\<close>

lemma createPoints_features:
  "c_features (fst (createPoints content arrayBuffer byteOffset len n ids)) = c_features content"
  by (simp add: createPoints_def Let_def split: sum.splits prod.splits)

lemma createPrimitives_features:
  "c_features (fst (createPrimitives content arrayBuffer s np nl n)) = c_features content"
  unfolding createPrimitives_def Let_def
  by (auto simp: createPoints_features split: sum.splits prod.splits if_splits)

lemma initialize_features:
  "c_features (fst (initialize parseFeatureTable parseBatchTable content arrayBuffer byteOffset))
     = c_features content"
  by (simp add: initialize_def decodeTile_def Let_def createPrimitives_features
      split: sum.splits)

text \<open>
  initialize never touches the feature array, so every constructed content is consistent
  in the sense of \<open>featuresConsistent\<close>.
\<close>

lemma constructed_featuresConsistent:
  "featuresConsistent (fst (Vector3DTileContent parseFeatureTable parseBatchTable tile' arrayBuffer byteOffset))"
  by (simp add: featuresConsistent_def Vector3DTileContent_def initialize_features newContent_def)

lemma clearFeature_defaults: "documentedDefaults (clearFeature f)"
  by (simp add: documentedDefaults_def clearFeature_def setBillboardImage_def)

lemma getFeature_defined:
  assumes "c_features content = Some fs" "length fs = featuresLength content" "i < length fs"
  shows "getFeature newFeature content i = Inr (content, Some (fs ! i))"
  using assms by (simp add: getFeature_def createFeatures_def defined_def element_def Let_def)

lemma storeFeature_defined:
  "c_features content = Some fs \<Longrightarrow>
   storeFeature content i f = content\<lparr>c_features := Some (fs[i := f])\<rparr>"
  by (simp add: storeFeature_def)

lemma take_map_drop_step:
  assumes "i < length fs"
  shows "take (i + 1) (fs[i := g (fs ! i)]) @ map g (drop (i + 1) (fs[i := g (fs ! i)]))
         = take i fs @ map g (drop i fs)"
proof -
  have "take (i + 1) (fs[i := g (fs ! i)]) = take i fs @ [g (fs ! i)]"
    using assms by (simp add: take_Suc_conv_app_nth)
  moreover have "drop (i + 1) (fs[i := g (fs ! i)]) = drop (i + 1) fs" by simp
  moreover have "drop i fs = fs ! i # drop (i + 1) fs"
    using assms by (simp add: Cons_nth_drop_Suc)
  ultimately show ?thesis by simp
qed

lemma clearStyleLoop_result:
  assumes "c_features content = Some fs" "length fs = len" "featuresLength content = len" "i \<le> len"
  shows "clearStyleLoop newFeature i len content =
           (content\<lparr>c_features := Some (take i fs @ map clearFeature (drop i fs))\<rparr>, Returned)"
  using assms
proof (induction "len - i" arbitrary: i content fs)
  case 0
  then have "i = len" by simp
  with 0 show ?case by (subst clearStyleLoop.simps) simp
next
  case (Suc k)
  then have lt: "i < len" by simp
  let ?f = "clearFeature (fs ! i)"
  let ?content = "content\<lparr>c_features := Some (fs[i := ?f])\<rparr>"
  have g: "getFeature newFeature content i = Inr (content, Some (fs ! i))"
    using Suc.prems lt by (simp add: getFeature_defined)
  have st: "storeFeature content i ?f = ?content"
    using Suc.prems by (simp add: storeFeature_defined)
  have fl: "featuresLength ?content = len"
    using Suc.prems by (simp add: featuresLength_def)
  have "clearStyleLoop newFeature i len content = clearStyleLoop newFeature (i + 1) len ?content"
    using lt by (subst clearStyleLoop.simps) (simp add: g st)
  also have "\<dots> = (?content\<lparr>c_features :=
      Some (take (i + 1) (fs[i := ?f]) @ map clearFeature (drop (i + 1) (fs[i := ?f])))\<rparr>, Returned)"
    by (rule Suc.hyps(1)) (use Suc lt fl in simp_all)
  also have "\<dots> = (content\<lparr>c_features := Some (take i fs @ map clearFeature (drop i fs))\<rparr>, Returned)"
    using lt Suc.prems by (simp add: take_map_drop_step [of i fs clearFeature, simplified])
  finally show ?case .
qed

lemma createFeatures_consistent:
  assumes "featuresConsistent content" "0 < featuresLength content"
  shows "\<exists>fs. c_features (createFeatures newFeature content) = Some fs
              \<and> length fs = featuresLength content
              \<and> featuresLength (createFeatures newFeature content) = featuresLength content"
  using assms
  by (auto simp: createFeatures_def featuresConsistent_def defined_def Let_def featuresLength_def
      split: option.splits)

text \<open>
  C7. applyStyle with an undefined style, on a content that has features, returns and
  leaves every feature with the documented defaults: in particular the colour is white,
  pointOutlineColor black, pointOutlineWidth 0, labelOutlineWidth 1 and anchorLineEnabled
  false.
\<close>

theorem clear_style_defaults:
  assumes "featuresConsistent content" and "0 < featuresLength content"
  shows "snd (applyStyle newFeature content frameState None) = Returned
       \<and> (case c_features (fst (applyStyle newFeature content frameState None)) of
             None \<Rightarrow> False
           | Some features \<Rightarrow>
               length features = featuresLength content
               \<and> (\<forall>feature \<in> set features.
                     color feature = WHITE \<and> pointOutlineColor feature = BLACK
                     \<and> pointOutlineWidth feature = 0 \<and> labelOutlineWidth feature = 1
                     \<and> anchorLineEnabled feature = False \<and> documentedDefaults feature))"
proof -
  from createFeatures_consistent [OF assms] obtain fs where
    fs: "c_features (createFeatures newFeature content) = Some fs"
    and len: "length fs = featuresLength content"
    and fl: "featuresLength (createFeatures newFeature content) = featuresLength content"
    by blast
  have "applyStyle newFeature content frameState None =
          ((createFeatures newFeature content)\<lparr>c_features := Some (map clearFeature fs)\<rparr>, Returned)"
    using clearStyleLoop_result [OF fs refl, of 0 newFeature] len fl
    by (simp add: applyStyle_def clearStyle_def fs Let_def)
  then show ?thesis
    using len clearFeature_defaults by (auto simp: documentedDefaults_def)
qed

lemma twoPointsContent_features:
  "featuresConsistent twoPointsContent" "featuresLength twoPointsContent = 2"
  by (simp_all add: featuresConsistent_def featuresLength_def twoPointsContent_def newContent_def)

theorem clear_style_defaults_witness:
  "featuresConsistent twoPointsContent \<and> 0 < featuresLength twoPointsContent
   \<and> snd (applyStyle exampleFeature twoPointsContent () None) = Returned
   \<and> (case c_features (fst (applyStyle exampleFeature twoPointsContent () None)) of
         None \<Rightarrow> False
       | Some features \<Rightarrow>
           length features = 2
           \<and> (\<forall>feature \<in> set features.
                 color feature = WHITE \<and> pointOutlineColor feature = BLACK
                 \<and> pointOutlineWidth feature = 0 \<and> labelOutlineWidth feature = 1
                 \<and> anchorLineEnabled feature = False \<and> documentedDefaults feature))"
proof -
  have p: "0 < featuresLength twoPointsContent" by (simp add: twoPointsContent_features)
  show ?thesis
    using clear_style_defaults [OF twoPointsContent_features(1) p, of exampleFeature "()"]
      twoPointsContent_features
    by (auto split: option.splits)
qed

text \<open>
  On a content without features (an empty tile) the same call ends in a TypeError, since
  clearStyle reads the length of the undefined feature array.
\<close>

lemma applyStyle_without_features:
  assumes "c_features content = None" and "featuresLength content = 0"
  shows "applyStyle newFeature content frameState None = (content, Threw TypeError)"
  using assms by (simp add: applyStyle_def createFeatures_def clearStyle_def Let_def)

section \<open>Applying a style\<close>

lemma applyStyleLoop_result:
  assumes "c_features content = Some fs" "length fs = len" "featuresLength content = len" "i \<le> len"
  shows "applyStyleLoop newFeature frameState style i len content =
           (content\<lparr>c_features := Some (take i fs @ map (styleFeature frameState style) (drop i fs))\<rparr>,
            Returned)"
  using assms
proof (induction "len - i" arbitrary: i content fs)
  case 0
  then have "i = len" by simp
  with 0 show ?case by (subst applyStyleLoop.simps) simp
next
  case (Suc k)
  then have lt: "i < len" by simp
  let ?f = "styleFeature frameState style (fs ! i)"
  let ?content = "content\<lparr>c_features := Some (fs[i := ?f])\<rparr>"
  have g: "getFeature newFeature content i = Inr (content, Some (fs ! i))"
    using Suc.prems lt by (simp add: getFeature_defined)
  have st: "storeFeature content i ?f = ?content"
    using Suc.prems by (simp add: storeFeature_defined)
  have fl: "featuresLength ?content = len"
    using Suc.prems by (simp add: featuresLength_def)
  have "applyStyleLoop newFeature frameState style i len content =
        applyStyleLoop newFeature frameState style (i + 1) len ?content"
    using lt by (subst applyStyleLoop.simps) (simp add: g st)
  also have "\<dots> = (?content\<lparr>c_features :=
      Some (take (i + 1) (fs[i := ?f])
            @ map (styleFeature frameState style) (drop (i + 1) (fs[i := ?f])))\<rparr>, Returned)"
    by (rule Suc.hyps(1)) (use Suc lt fl in simp_all)
  also have "\<dots> = (content\<lparr>c_features :=
      Some (take i fs @ map (styleFeature frameState style) (drop i fs))\<rparr>, Returned)"
    using lt Suc.prems
    by (simp add: take_map_drop_step [of i fs "styleFeature frameState style", simplified])
  finally show ?case .
qed

lemma applyStyle_result:
  assumes "featuresConsistent content" and "0 < featuresLength content"
  shows "\<exists>fs. c_features (createFeatures newFeature content) = Some fs
            \<and> length fs = featuresLength content
            \<and> applyStyle newFeature content frameState (Some style) =
                ((createFeatures newFeature content)
                   \<lparr>c_features := Some (map (styleFeature frameState style) fs)\<rparr>, Returned)"
proof -
  from createFeatures_consistent [OF assms] obtain fs where
    fs: "c_features (createFeatures newFeature content) = Some fs"
    and len: "length fs = featuresLength content"
    and fl: "featuresLength (createFeatures newFeature content) = featuresLength content"
    by blast
  have "applyStyle newFeature content frameState (Some style) =
          ((createFeatures newFeature content)
             \<lparr>c_features := Some (map (styleFeature frameState style) fs)\<rparr>, Returned)"
    using applyStyleLoop_result [OF fs refl, of 0 newFeature frameState style] len fl
    by (simp add: applyStyle_def fs Let_def)
  with fs len show ?thesis by blast
qed

lemma keeps_Let:
  "keepsDistanceDisplayCondition d a \<Longrightarrow>
   (\<And>x. keepsDistanceDisplayCondition d x \<Longrightarrow> keepsDistanceDisplayCondition d (g x)) \<Longrightarrow>
   keepsDistanceDisplayCondition d (Let a g)"
  by simp

lemma styleFeature_distanceDisplayCondition:
  assumes "style_distanceDisplayCondition style = Some e"
  shows "distanceDisplayCondition (styleFeature frameState style feature) = distanceDisplayCondition feature"
proof -
  have "keepsDistanceDisplayCondition (distanceDisplayCondition feature)
          (styleFeature frameState style feature)"
    unfolding styleFeature_def
    by (intro keeps_Let)
      (simp_all add: keepsDistanceDisplayCondition_def setBillboardImage_def assms split: option.splits)
  then show ?thesis by (simp add: keepsDistanceDisplayCondition_def)
qed

lemma exampleStyle_distanceDisplayCondition:
  "style_distanceDisplayCondition exampleStyle = Some (\<lambda>frameState feature. (10, 100))"
  by (simp add: exampleStyle_def)

lemma createFeatures_twoPoints:
  "c_features (createFeatures exampleFeature twoPointsContent) =
     Some [exampleFeature 0 True, exampleFeature 1 True]"
  by (simp add: createFeatures_def featuresLength_def twoPointsContent_def newContent_def
      defined_def Let_def upt_rec)

text \<open>
  C8. With a style that defines distanceDisplayCondition, applyStyle should set each
  feature's distanceDisplayCondition to the evaluated condition. The code does not: for
  the two-point content and a style whose condition evaluates to (10, 100), applyStyle
  returns, every feature's distanceDisplayCondition is still undefined, and the evaluated
  condition sits in the property \<open>distanceDisplatCondition\<close>.
\<close>

theorem distanceDisplayCondition_write_dropped:
  "style_distanceDisplayCondition exampleStyle \<noteq> None
   \<and> snd (applyStyle exampleFeature twoPointsContent () (Some exampleStyle)) = Returned
   \<and> map_option (map distanceDisplayCondition)
        (c_features (fst (applyStyle exampleFeature twoPointsContent () (Some exampleStyle))))
      = Some [None, None]
   \<and> map_option (map distanceDisplatCondition)
        (c_features (fst (applyStyle exampleFeature twoPointsContent () (Some exampleStyle))))
      = Some [Some (DistanceDisplayCondition 10 100), Some (DistanceDisplayCondition 10 100)]"
proof -
  have d: "distanceDisplayCondition (styleFeature () exampleStyle (exampleFeature i True)) = None" for i
    by (simp add: styleFeature_distanceDisplayCondition [OF exampleStyle_distanceDisplayCondition]
        exampleFeature_def)
  have t: "distanceDisplatCondition (styleFeature () exampleStyle (exampleFeature i True))
           = Some (DistanceDisplayCondition 10 100)" for i
    by (simp add: styleFeature_def exampleStyle_def setBillboardImage_def fromCartesian2_def)
  from applyStyle_result [OF twoPointsContent_features(1), of exampleFeature "()" exampleStyle]
  have "applyStyle exampleFeature twoPointsContent () (Some exampleStyle) =
          ((createFeatures exampleFeature twoPointsContent)
             \<lparr>c_features := Some (map (styleFeature () exampleStyle)
                                      [exampleFeature 0 True, exampleFeature 1 True])\<rparr>, Returned)"
    by (auto simp: twoPointsContent_features(2) createFeatures_twoPoints)
  then show ?thesis
    by (simp add: d t exampleStyle_distanceDisplayCondition)
qed

section \<open>Destruction\<close>

text \<open>
  C9. destroy on a content whose readiness has not resolved returns (the model has no
  throwing path, as the source has none); afterwards isDestroyed is true and the polygon
  set, the polyline set, the three collections and the batch table are released.
\<close>

theorem destroy_before_ready:
  assumes "readyPromise content = Pending"
  shows "isDestroyed (destroy content)
       \<and> c_polygons (destroy content) = None \<and> c_polylines (destroy content) = None
       \<and> c_billboardCollection (destroy content) = None \<and> c_labelCollection (destroy content) = None
       \<and> c_polylineCollection (destroy content) = None \<and> batchTable (destroy content) = None
       \<and> readyPromise (destroy content) = Pending"
  using assms
  by (simp add: destroy_def destroyObject_def isDestroyed_def destroyMember_def batchTable_def
      readyPromise_def Let_def split: option.splits)

theorem destroy_before_ready_witness:
  "readyPromise twoPointsContent = Pending
   \<and> \<not> isDestroyed twoPointsContent
   \<and> c_billboardCollection twoPointsContent \<noteq> None \<and> batchTable twoPointsContent \<noteq> None
   \<and> isDestroyed (destroy twoPointsContent)
   \<and> c_billboardCollection (destroy twoPointsContent) = None
   \<and> batchTable (destroy twoPointsContent) = None"
proof -
  have p: "readyPromise twoPointsContent = Pending"
    by (simp add: readyPromise_def twoPointsContent_def newContent_def)
  have q: "\<not> isDestroyed twoPointsContent" "c_billboardCollection twoPointsContent \<noteq> None"
    "batchTable twoPointsContent \<noteq> None"
    by (simp_all add: isDestroyed_def batchTable_def twoPointsContent_def newContent_def)
  show ?thesis
    using destroy_before_ready [OF p] p q by simp
qed

end
